theory Spec2Isabelle
  imports Main
begin

section \<open>Slack slash-command handler: \<^verbatim>\<open>src/slack/monitor/slash.ts\<close>\<close>

text \<open>
  The development embeds \<^verbatim>\<open>handleSlashCommand\<close>, the closure that
  \<^verbatim>\<open>registerSlackMonitorSlashCommands\<close> installs for every slash command.
  One invocation is modelled as a function from the monitor context, the imported
  modules and the handler's arguments to the list of calls the handler makes on its
  collaborators, in order, together with the way its promise settles.

  Every collaborator that performs I/O (\<^verbatim>\<open>ack\<close>, \<^verbatim>\<open>respond\<close>, the context's
  resolvers, the pairing store, the router, the dispatcher, the reply delivery and the
  runtime logger) is a function of its arguments that either throws (\<open>Inl\<close>) or
  returns (\<open>Inr\<close>); for the duration of one invocation it answers the same arguments
  the same way. The helpers the specification describes as pure (allow-list
  normalisation and matching, channel-config resolution, the room policy check, message
  formatting) are total functions taken as parameters, so every theorem about the
  handler holds for all of their implementations.
\<close>

subsection \<open>Strings\<close>

text \<open>
  A \<open>string\<close> is read as a sequence of code units below 256. The white space of
  \<^verbatim>\<open>String.prototype.trim\<close> in that range is TAB, LF, VT, FF, CR, SP and NBSP.
\<close>

definition isWhiteSpace :: "char \<Rightarrow> bool" where
  "isWhiteSpace c =
     (c = CHR 0x09 \<or> c = CHR 0x0A \<or> c = CHR 0x0B \<or> c = CHR 0x0C \<or> c = CHR 0x0D
      \<or> c = CHR 0x20 \<or> c = CHR 0xA0)"

definition trim :: "string \<Rightarrow> string" where
  "trim s = rev (dropWhile isWhiteSpace (rev (dropWhile isWhiteSpace s)))"

text \<open>\<^verbatim>\<open>Boolean(s)\<close> for a string, and for a string that may be undefined.\<close>

definition truthy :: "string \<Rightarrow> bool" where
  "truthy s = (s \<noteq> [])"

definition truthyOpt :: "string option \<Rightarrow> bool" where
  "truthyOpt s = (case s of None \<Rightarrow> False | Some t \<Rightarrow> truthy t)"

text \<open>\<^verbatim>\<open>Array.prototype.join\<close> and \<^verbatim>\<open>Array.prototype.indexOf\<close> (for an
  element that occurs in the list).\<close>

fun join :: "string \<Rightarrow> string list \<Rightarrow> string" where
  "join sep [] = []"
| "join sep [x] = x"
| "join sep (x # y # ys) = x @ sep @ join sep (y # ys)"

fun indexOf :: "'a list \<Rightarrow> 'a \<Rightarrow> nat" where
  "indexOf [] y = 0"
| "indexOf (x # xs) y = (if x = y then 0 else Suc (indexOf xs y))"

subsection \<open>Data\<close>

text \<open>A thrown value; \<^verbatim>\<open>String(err)\<close> reads its text.\<close>

datatype js_error = JsError string

fun errString :: "js_error \<Rightarrow> string" where
  "errString (JsError s) = s"

text \<open>The fields of \<^verbatim>\<open>SlackCommandMiddlewareArgs["command"]\<close> the handler reads.\<close>

record slack_command =
  user_id :: string
  user_name :: "string option"
  channel_id :: string
  channel_name :: string
  trigger_id :: string

text \<open>The argument of \<^verbatim>\<open>ack\<close> and \<^verbatim>\<open>respond\<close>.\<close>

record slack_message =
  msg_text :: string
  msg_response_type :: string

definition ephemeral :: "string \<Rightarrow> slack_message" where
  "ephemeral t = \<lparr>msg_text = t, msg_response_type = ''ephemeral''\<rparr>"

text \<open>Results of \<^verbatim>\<open>ctx.resolveChannelName\<close> and \<^verbatim>\<open>ctx.resolveUserName\<close>.\<close>

record channel_info =
  ci_name :: "string option"
  ci_type :: "string option"
  ci_topic :: "string option"
  ci_purpose :: "string option"

record user_info =
  ui_name :: "string option"

text \<open>One entry of the \<^verbatim>\<open>channels\<close> configuration, and
  \<^verbatim>\<open>SlackChannelConfigResolved\<close>.\<close>

record channel_config =
  cc_requireMention :: "bool option"
  cc_allowed :: "bool option"
  cc_users :: "string list option"
  cc_systemPrompt :: "string option"
  cc_skills :: "string list option"

record resolved_channel_config =
  allowed :: bool
  requireMention :: bool
  users :: "string list option"
  systemPrompt :: "string option"
  skills :: "string list option"

text \<open>Argument objects of the collaborators.\<close>

record channel_allowed_args =
  ca_channelId :: string
  ca_channelName :: "string option"
  ca_channelType :: "string option"

record resolve_config_args =
  rc_channelId :: string
  rc_channelName :: "string option"
  rc_channels :: "(string \<times> channel_config) list option"
  rc_defaultRequireMention :: "bool option"

record policy_args =
  pa_groupPolicy :: string
  pa_channelAllowlistConfigured :: bool
  pa_channelAllowed :: bool

record allow_list_args =
  al_allowList :: "string list"
  al_id :: string
  al_name :: "string option"

record user_allowed_args =
  ua_allowList :: "string list option"
  ua_userId :: string
  ua_userName :: string

record pairing_args =
  pr_channel :: string
  pr_id :: string
  pr_meta_name :: "string option"

record pairing_result =
  code :: string
  created :: bool

record pairing_reply_args =
  pp_channel :: string
  pp_idLine :: string
  pp_code :: string

record route_args =
  ra_channel :: string
  ra_accountId :: string
  ra_teamId :: "string option"
  ra_peer_kind :: string
  ra_peer_id :: string

record agent_route =
  agentId :: string
  sessionKey :: string
  accountId :: string

record messages_config =
  responsePrefix :: "string option"

record ctx_payload =
  Body :: string
  From :: string
  To :: string
  ChatType :: string
  GroupSubject :: "string option"
  GroupSystemPrompt :: "string option"
  SenderName :: string
  SenderId :: string
  Provider :: string
  Surface :: string
  WasMentioned :: bool
  MessageSid :: string
  Timestamp :: nat
  SessionKey :: string
  CommandTargetSessionKey :: string
  AccountId :: string
  CommandSource :: string
  CommandAuthorized :: bool
  OriginatingChannel :: string
  OriginatingTo :: string

text \<open>
  The argument of \<^verbatim>\<open>dispatchReplyWithDispatcher\<close>. The \<^verbatim>\<open>deliver\<close> and
  \<^verbatim>\<open>onError\<close> callbacks are run by the dispatcher, not by the handler; what they do
  is part of the dispatcher's behaviour and leaves no entry in the handler's own list
  of calls.
\<close>

record dispatch_args =
  da_ctx :: ctx_payload
  da_responsePrefix :: "string option"
  da_skillFilter :: "string list option"

record reply_counts =
  final :: nat
  tool :: nat
  block :: nat

record dispatch_result =
  counts :: reply_counts

record deliver_args =
  dl_replies :: "string list"
  dl_ephemeral :: bool
  dl_textLimit :: nat

text \<open>The result of \<^verbatim>\<open>resolveSlackSlashCommandConfig\<close> and the account.\<close>

record slash_command_config =
  sc_enabled :: bool
  sc_name :: string
  sc_sessionPrefix :: string
  sc_ephemeral :: bool

record resolved_account =
  acc_accountId :: string

text \<open>\<^verbatim>\<open>SlackMonitorContext\<close>: the fields the handler reads. \<^verbatim>\<open>runtime.error\<close> is
  optional (\<^verbatim>\<open>runtime.error?.(...)\<close>).\<close>

record 'cfg slack_monitor_context =
  cfg :: 'cfg
  runtime_error :: "(string \<Rightarrow> js_error + unit) option"
  botUserId :: "string option"
  teamId :: string
  allowFrom :: "string list"
  dmEnabled :: bool
  dmPolicy :: string
  channelsConfig :: "(string \<times> channel_config) list option"
  defaultRequireMention :: "bool option"
  useAccessGroups :: bool
  groupPolicy :: string
  textLimit :: nat
  resolveChannelName :: "string \<Rightarrow> js_error + channel_info option"
  isChannelAllowed :: "channel_allowed_args \<Rightarrow> js_error + bool"
  resolveUserName :: "string \<Rightarrow> js_error + user_info option"

text \<open>The imported functions, and the clock read by \<^verbatim>\<open>Date.now()\<close>.\<close>

record 'cfg slash_imports =
  readChannelAllowFromStore :: "string \<Rightarrow> js_error + string list"
  upsertChannelPairingRequest :: "pairing_args \<Rightarrow> js_error + pairing_result"
  resolveAgentRoute :: "'cfg \<Rightarrow> route_args \<Rightarrow> js_error + agent_route"
  dispatchReplyWithDispatcher :: "'cfg \<Rightarrow> dispatch_args \<Rightarrow> js_error + dispatch_result"
  deliverSlackSlashReplies :: "deliver_args \<Rightarrow> js_error + unit"
  normalizeAllowList :: "string list \<Rightarrow> string list"
  normalizeAllowListLower :: "string list \<Rightarrow> string list"
  allowListMatches :: "allow_list_args \<Rightarrow> bool"
  resolveSlackUserAllowed :: "user_allowed_args \<Rightarrow> bool"
  resolveSlackChannelConfig :: "resolve_config_args \<Rightarrow> resolved_channel_config option"
  isSlackRoomAllowedByPolicy :: "policy_args \<Rightarrow> bool"
  buildPairingReply :: "pairing_reply_args \<Rightarrow> string"
  resolveEffectiveMessagesConfig :: "'cfg \<Rightarrow> string \<Rightarrow> messages_config"
  danger :: "string \<Rightarrow> string"
  dateNow :: nat

text \<open>The handler's argument \<^verbatim>\<open>p\<close>.\<close>

record handler_params =
  command :: slack_command
  ack :: "slack_message option \<Rightarrow> js_error + unit"
  respond :: "slack_message \<Rightarrow> js_error + unit"
  prompt :: string

subsection \<open>Calls, early return and exceptions\<close>

text \<open>The calls the handler makes, with their arguments.\<close>

datatype event =
  EvAck "slack_message option"
| EvRespond slack_message
| EvResolveChannelName string
| EvIsChannelAllowed channel_allowed_args
| EvReadChannelAllowFromStore string
| EvResolveUserName string
| EvUpsertChannelPairingRequest pairing_args
| EvResolveAgentRoute route_args
| EvDispatch dispatch_args
| EvDeliver deliver_args
| EvRuntimeError string

text \<open>
  A block of the handler ends in one of three ways: it throws, it executes
  \<^verbatim>\<open>return\<close>, or control reaches its end with a value.
\<close>

datatype 'a step = Throw js_error | Return | Next 'a

type_synonym 'a io = "event list \<times> 'a step"

definition next_io :: "'a \<Rightarrow> 'a io" where
  "next_io v = ([], Next v)"

definition return_io :: "'a io" where
  "return_io = ([], Return)"

definition call :: "event \<Rightarrow> js_error + 'a \<Rightarrow> 'a io" where
  "call ev r = ([ev], (case r of Inl e \<Rightarrow> Throw e | Inr v \<Rightarrow> Next v))"

definition bind_io :: "'a io \<Rightarrow> ('a \<Rightarrow> 'b io) \<Rightarrow> 'b io" where
  "bind_io m f =
     (case m of
        (tr, Throw e) \<Rightarrow> (tr, Throw e)
      | (tr, Return) \<Rightarrow> (tr, Return)
      | (tr, Next v) \<Rightarrow> (case f v of (tr', r) \<Rightarrow> (tr @ tr', r)))"

text \<open>\<^verbatim>\<open>promise.catch(() => d)\<close>: a rejection becomes the value \<open>d\<close>.\<close>

definition catchDefault :: "js_error + 'a \<Rightarrow> 'a \<Rightarrow> js_error + 'a" where
  "catchDefault r d = (case r of Inl e \<Rightarrow> Inr d | Inr v \<Rightarrow> Inr v)"

text \<open>How the handler's promise settles.\<close>

datatype outcome = Resolved | Rejected js_error

subsection \<open>The handler\<close>

text \<open>Lines 63-64 and the reads of \<^verbatim>\<open>channelInfo?.name\<close>.\<close>

definition channelTypeOf :: "slack_command \<Rightarrow> channel_info option \<Rightarrow> string option" where
  "channelTypeOf cmd channelInfo =
     (case (case channelInfo of None \<Rightarrow> None | Some ci \<Rightarrow> ci_type ci) of
        Some t \<Rightarrow> Some t
      | None \<Rightarrow> (if channel_name cmd = ''directmessage'' then Some ''im'' else None))"

definition channelNameOf :: "channel_info option \<Rightarrow> string option" where
  "channelNameOf channelInfo = (case channelInfo of None \<Rightarrow> None | Some ci \<Rightarrow> ci_name ci)"

text \<open>Lines 83-85: the store read with its \<^verbatim>\<open>.catch(() => [])\<close>, and the effective
  allow-list built from the static entries followed by the stored ones.\<close>

definition storeAllowFromOf :: "'cfg slash_imports \<Rightarrow> js_error + string list" where
  "storeAllowFromOf deps = catchDefault (readChannelAllowFromStore deps ''slack'') []"

definition effectiveAllowFromOf ::
  "'cfg slack_monitor_context \<Rightarrow> 'cfg slash_imports \<Rightarrow> string list \<Rightarrow> string list" where
  "effectiveAllowFromOf ctx deps storeAllowFrom =
     normalizeAllowList deps (allowFrom ctx @ storeAllowFrom)"

text \<open>Lines 89-132: the direct-message branch. Its value is \<^verbatim>\<open>commandAuthorized\<close>
  as the branch leaves it.\<close>

definition dmBranch ::
  "'cfg slack_monitor_context \<Rightarrow> 'cfg slash_imports \<Rightarrow> handler_params \<Rightarrow> bool \<Rightarrow>
   string list \<Rightarrow> bool \<Rightarrow> bool io" where
  "dmBranch ctx deps p isDirectMessage effectiveAllowFromLower commandAuthorized =
     (if isDirectMessage then
        (if \<not> dmEnabled ctx \<or> dmPolicy ctx = ''disabled'' then
           bind_io (call (EvRespond (ephemeral ''Slack DMs are disabled.''))
                         (respond p (ephemeral ''Slack DMs are disabled.'')))
             (\<lambda>_. return_io)
         else if dmPolicy ctx \<noteq> ''open'' then
           bind_io (call (EvResolveUserName (user_id (command p)))
                         (resolveUserName ctx (user_id (command p))))
             (\<lambda>sender.
                let senderName = (case sender of None \<Rightarrow> None | Some s \<Rightarrow> ui_name s);
                    permitted = allowListMatches deps
                      \<lparr>al_allowList = effectiveAllowFromLower,
                       al_id = user_id (command p),
                       al_name = senderName\<rparr>
                in if \<not> permitted then
                     (if dmPolicy ctx = ''pairing'' then
                        bind_io (call (EvUpsertChannelPairingRequest
                                         \<lparr>pr_channel = ''slack'', pr_id = user_id (command p),
                                          pr_meta_name = senderName\<rparr>)
                                      (upsertChannelPairingRequest deps
                                         \<lparr>pr_channel = ''slack'', pr_id = user_id (command p),
                                          pr_meta_name = senderName\<rparr>))
                          (\<lambda>r.
                             if created r then
                               bind_io (call (EvRespond (ephemeral (buildPairingReply deps
                                                \<lparr>pp_channel = ''slack'',
                                                 pp_idLine = ''Your Slack user id: '' @ user_id (command p),
                                                 pp_code = code r\<rparr>)))
                                             (respond p (ephemeral (buildPairingReply deps
                                                \<lparr>pp_channel = ''slack'',
                                                 pp_idLine = ''Your Slack user id: '' @ user_id (command p),
                                                 pp_code = code r\<rparr>))))
                                 (\<lambda>_. return_io)
                             else return_io)
                      else
                        bind_io (call (EvRespond (ephemeral ''You are not authorized to use this command.''))
                                      (respond p (ephemeral ''You are not authorized to use this command.'')))
                          (\<lambda>_. return_io))
                   else next_io True)
         else next_io commandAuthorized)
      else next_io commandAuthorized)"

text \<open>Lines 134-167: the room branch. Its value is \<^verbatim>\<open>channelConfig\<close> as the branch
  leaves it.\<close>

definition roomBranch ::
  "'cfg slack_monitor_context \<Rightarrow> 'cfg slash_imports \<Rightarrow> handler_params \<Rightarrow> bool \<Rightarrow>
   channel_info option \<Rightarrow> resolved_channel_config option \<Rightarrow> resolved_channel_config option io" where
  "roomBranch ctx deps p isRoom channelInfo channelConfig0 =
     (if isRoom then
        (let channelConfig = resolveSlackChannelConfig deps
               \<lparr>rc_channelId = channel_id (command p),
                rc_channelName = channelNameOf channelInfo,
                rc_channels = channelsConfig ctx,
                rc_defaultRequireMention = defaultRequireMention ctx\<rparr>
         in bind_io
              (if useAccessGroups ctx then
                 (let channelAllowlistConfigured =
                        (case channelsConfig ctx of None \<Rightarrow> False | Some cs \<Rightarrow> length cs > 0);
                      channelAllowed =
                        (case channelConfig of None \<Rightarrow> True | Some c \<Rightarrow> allowed c \<noteq> False)
                  in if \<not> isSlackRoomAllowedByPolicy deps
                             \<lparr>pa_groupPolicy = groupPolicy ctx,
                              pa_channelAllowlistConfigured = channelAllowlistConfigured,
                              pa_channelAllowed = channelAllowed\<rparr>
                        \<or> \<not> channelAllowed
                     then bind_io (call (EvRespond (ephemeral ''This channel is not allowed.''))
                                        (respond p (ephemeral ''This channel is not allowed.'')))
                            (\<lambda>_. return_io)
                     else next_io ())
               else next_io ())
              (\<lambda>_.
                 if useAccessGroups ctx
                    \<and> (case channelConfig of None \<Rightarrow> False | Some c \<Rightarrow> allowed c = False)
                 then bind_io (call (EvRespond (ephemeral ''This channel is not allowed.''))
                                    (respond p (ephemeral ''This channel is not allowed.'')))
                        (\<lambda>_. return_io)
                 else next_io channelConfig))
      else next_io channelConfig0)"

text \<open>Lines 200-210: the channel description and the group system prompt.\<close>

definition channelDescriptionOf :: "channel_info option \<Rightarrow> string" where
  "channelDescriptionOf channelInfo =
     (let entries = [case channelInfo of None \<Rightarrow> None | Some ci \<Rightarrow> ci_topic ci,
                     case channelInfo of None \<Rightarrow> None | Some ci \<Rightarrow> ci_purpose ci];
          trimmed = map (map_option trim) entries;
          present = concat (map (\<lambda>entry. case entry of None \<Rightarrow> []
                                   | Some s \<Rightarrow> if truthy s then [s] else []) trimmed);
          unique = map (\<lambda>i. present ! i)
                     (filter (\<lambda>i. indexOf present (present ! i) = i) [0..<length present])
      in join [CHR 0x0A] unique)"

definition groupSystemPromptOf :: "string \<Rightarrow> resolved_channel_config option \<Rightarrow> string option" where
  "groupSystemPromptOf channelDescription channelConfig =
     (let systemPromptParts =
            (if truthy channelDescription
             then [''Channel description: '' @ channelDescription] else [])
            @ (case (case channelConfig of None \<Rightarrow> None | Some c \<Rightarrow> systemPrompt c) of
                 None \<Rightarrow> []
               | Some s \<Rightarrow> if truthy (trim s) then [trim s] else [])
      in if length systemPromptParts > 0
         then Some (join [CHR 0x0A, CHR 0x0A] systemPromptParts) else None)"

text \<open>Lines 212-237: the context payload.\<close>

definition buildCtxPayload ::
  "'cfg slash_imports \<Rightarrow> slash_command_config \<Rightarrow> handler_params \<Rightarrow> channel_info option \<Rightarrow>
   bool \<Rightarrow> bool \<Rightarrow> bool \<Rightarrow> string \<Rightarrow> resolved_channel_config option \<Rightarrow> agent_route \<Rightarrow> bool \<Rightarrow>
   ctx_payload" where
  "buildCtxPayload deps slashCommand p channelInfo isDirectMessage isRoom isGroupDm senderName
       channelConfig route commandAuthorized =
     (let channelName = channelNameOf channelInfo;
          roomLabel = (case channelName of
                         None \<Rightarrow> ''#'' @ channel_id (command p)
                       | Some n \<Rightarrow> if truthy n then ''#'' @ n
                                  else ''#'' @ channel_id (command p));
          isRoomish = (isRoom \<or> isGroupDm);
          groupSystemPrompt = groupSystemPromptOf (channelDescriptionOf channelInfo) channelConfig
      in \<lparr>Body = prompt p,
          From = (if isDirectMessage then ''slack:'' @ user_id (command p)
                  else if isRoom then ''slack:channel:'' @ channel_id (command p)
                  else ''slack:group:'' @ channel_id (command p)),
          To = ''slash:'' @ user_id (command p),
          ChatType = (if isDirectMessage then ''direct'' else if isRoom then ''room'' else ''group''),
          GroupSubject = (if isRoomish then Some roomLabel else None),
          GroupSystemPrompt = (if isRoomish then groupSystemPrompt else None),
          SenderName = senderName,
          SenderId = user_id (command p),
          Provider = ''slack'',
          Surface = ''slack'',
          WasMentioned = True,
          MessageSid = trigger_id (command p),
          Timestamp = dateNow deps,
          SessionKey = ''agent:'' @ agentId route @ '':'' @ sc_sessionPrefix slashCommand
                         @ '':'' @ user_id (command p),
          CommandTargetSessionKey = sessionKey route,
          AccountId = accountId route,
          CommandSource = ''native'',
          CommandAuthorized = commandAuthorized,
          OriginatingChannel = ''slack'',
          OriginatingTo = ''user:'' @ user_id (command p)\<rparr>)"

text \<open>Lines 169-265: the sender lookup, the per-user check of a room, the route, the
  dispatch and the delivery of an empty result.\<close>

definition dispatchStage ::
  "'cfg slack_monitor_context \<Rightarrow> 'cfg slash_imports \<Rightarrow> resolved_account \<Rightarrow>
   slash_command_config \<Rightarrow> handler_params \<Rightarrow> channel_info option \<Rightarrow> bool \<Rightarrow> bool \<Rightarrow> bool \<Rightarrow>
   bool \<Rightarrow> resolved_channel_config option \<Rightarrow> unit io" where
  "dispatchStage ctx deps account slashCommand p channelInfo isDirectMessage isGroupDm isRoom
       commandAuthorized channelConfig =
     bind_io (call (EvResolveUserName (user_id (command p)))
                   (resolveUserName ctx (user_id (command p))))
       (\<lambda>sender.
          let senderName =
                (case (case sender of None \<Rightarrow> None | Some s \<Rightarrow> ui_name s) of
                   Some n \<Rightarrow> n
                 | None \<Rightarrow> (case user_name (command p) of
                              Some n \<Rightarrow> n
                            | None \<Rightarrow> user_id (command p)));
              channelUserAllowed =
                (if isRoom then resolveSlackUserAllowed deps
                     \<lparr>ua_allowList = (case channelConfig of None \<Rightarrow> None | Some c \<Rightarrow> users c),
                      ua_userId = user_id (command p),
                      ua_userName = senderName\<rparr>
                 else True)
          in if isRoom \<and> \<not> channelUserAllowed then
               bind_io (call (EvRespond (ephemeral ''You are not authorized to use this command here.''))
                             (respond p (ephemeral ''You are not authorized to use this command here.'')))
                 (\<lambda>_. return_io)
             else
               (let routeArgs =
                      \<lparr>ra_channel = ''slack'',
                       ra_accountId = acc_accountId account,
                       ra_teamId = (if truthy (teamId ctx) then Some (teamId ctx) else None),
                       ra_peer_kind = (if isDirectMessage then ''dm''
                                       else if isRoom then ''channel'' else ''group''),
                       ra_peer_id = (if isDirectMessage then user_id (command p)
                                     else channel_id (command p))\<rparr>
                in bind_io (call (EvResolveAgentRoute routeArgs)
                                 (resolveAgentRoute deps (cfg ctx) routeArgs))
                     (\<lambda>route.
                        let ctxPayload = buildCtxPayload deps slashCommand p channelInfo
                              isDirectMessage isRoom isGroupDm senderName channelConfig route
                              commandAuthorized;
                            dispatchArgs =
                              \<lparr>da_ctx = ctxPayload,
                               da_responsePrefix =
                                 responsePrefix (resolveEffectiveMessagesConfig deps (cfg ctx)
                                                   (agentId route)),
                               da_skillFilter =
                                 (case channelConfig of None \<Rightarrow> None | Some c \<Rightarrow> skills c)\<rparr>
                        in bind_io (call (EvDispatch dispatchArgs)
                                         (dispatchReplyWithDispatcher deps (cfg ctx) dispatchArgs))
                             (\<lambda>res.
                                if final (counts res) + tool (counts res) + block (counts res) = 0
                                then
                                  bind_io (call (EvDeliver \<lparr>dl_replies = [],
                                                   dl_ephemeral = sc_ephemeral slashCommand,
                                                   dl_textLimit = textLimit ctx\<rparr>)
                                                (deliverSlackSlashReplies deps
                                                   \<lparr>dl_replies = [],
                                                    dl_ephemeral = sc_ephemeral slashCommand,
                                                    dl_textLimit = textLimit ctx\<rparr>))
                                    (\<lambda>_. next_io ())
                                else next_io ()))))"

text \<open>Lines 51-265: the body of the \<^verbatim>\<open>try\<close> block.\<close>

definition tryBody ::
  "'cfg slack_monitor_context \<Rightarrow> 'cfg slash_imports \<Rightarrow> resolved_account \<Rightarrow>
   slash_command_config \<Rightarrow> handler_params \<Rightarrow> unit io" where
  "tryBody ctx deps account slashCommand p =
     (if \<not> truthy (trim (prompt p)) then
        bind_io (call (EvAck (Some (ephemeral ''Message required.'')))
                      (ack p (Some (ephemeral ''Message required.''))))
          (\<lambda>_. return_io)
      else
        bind_io (call (EvAck None) (ack p None))
          (\<lambda>_.
             if truthyOpt (botUserId ctx) \<and> Some (user_id (command p)) = botUserId ctx
             then return_io
             else
               bind_io (call (EvResolveChannelName (channel_id (command p)))
                             (resolveChannelName ctx (channel_id (command p))))
                 (\<lambda>channelInfo.
                    let channelType = channelTypeOf (command p) channelInfo;
                        isDirectMessage = (channelType = Some ''im'');
                        isGroupDm = (channelType = Some ''mpim'');
                        isRoom = (channelType = Some ''channel'' \<or> channelType = Some ''group'');
                        allowedArgs = \<lparr>ca_channelId = channel_id (command p),
                                       ca_channelName = channelNameOf channelInfo,
                                       ca_channelType = channelType\<rparr>
                    in bind_io (call (EvIsChannelAllowed allowedArgs)
                                     (isChannelAllowed ctx allowedArgs))
                         (\<lambda>channelOk.
                            if \<not> channelOk then
                              bind_io (call (EvRespond (ephemeral ''This channel is not allowed.''))
                                            (respond p (ephemeral ''This channel is not allowed.'')))
                                (\<lambda>_. return_io)
                            else
                              bind_io (call (EvReadChannelAllowFromStore ''slack'')
                                            (storeAllowFromOf deps))
                                (\<lambda>storeAllowFrom.
                                   let effectiveAllowFrom =
                                         effectiveAllowFromOf ctx deps storeAllowFrom;
                                       effectiveAllowFromLower =
                                         normalizeAllowListLower deps effectiveAllowFrom
                                   in bind_io (dmBranch ctx deps p isDirectMessage
                                                 effectiveAllowFromLower True)
                                        (\<lambda>commandAuthorized.
                                           bind_io (roomBranch ctx deps p isRoom channelInfo None)
                                             (\<lambda>channelConfig.
                                                dispatchStage ctx deps account slashCommand p
                                                  channelInfo isDirectMessage isGroupDm isRoom
                                                  commandAuthorized channelConfig)))))))"

text \<open>Lines 266-272: the \<^verbatim>\<open>catch\<close> block, and lines 50-273: the handler. The
  handler's promise rejects exactly when the \<^verbatim>\<open>catch\<close> block itself throws.\<close>

definition catchBlock ::
  "'cfg slack_monitor_context \<Rightarrow> 'cfg slash_imports \<Rightarrow> handler_params \<Rightarrow> js_error \<Rightarrow> unit io" where
  "catchBlock ctx deps p err =
     bind_io (case runtime_error ctx of
                None \<Rightarrow> next_io ()
              | Some logError \<Rightarrow>
                  call (EvRuntimeError (danger deps (''slack slash handler failed: '' @ errString err)))
                       (logError (danger deps (''slack slash handler failed: '' @ errString err))))
       (\<lambda>_. call (EvRespond (ephemeral ''Sorry, something went wrong handling that command.''))
                 (respond p (ephemeral ''Sorry, something went wrong handling that command.'')))"

definition handleSlashCommand ::
  "'cfg slack_monitor_context \<Rightarrow> 'cfg slash_imports \<Rightarrow> resolved_account \<Rightarrow>
   slash_command_config \<Rightarrow> handler_params \<Rightarrow> event list \<times> outcome" where
  "handleSlashCommand ctx deps account slashCommand p =
     (case tryBody ctx deps account slashCommand p of
        (tr, Throw err) \<Rightarrow>
          (case catchBlock ctx deps p err of
             (tr', Throw err') \<Rightarrow> (tr @ tr', Rejected err')
           | (tr', _) \<Rightarrow> (tr @ tr', Resolved))
      | (tr, _) \<Rightarrow> (tr, Resolved))"

text \<open>The calls of a run and the way it settles.\<close>

definition calls :: "event list \<times> outcome \<Rightarrow> event list" where
  "calls run = fst run"

definition settles :: "event list \<times> outcome \<Rightarrow> outcome" where
  "settles run = snd run"

text \<open>
  Lines 275-305 register the handler with the Bolt application, once per native command
  or once for the configured slash command; every registration passes the command's
  \<^verbatim>\<open>ack\<close> and \<^verbatim>\<open>respond\<close> and a prompt to \<^verbatim>\<open>handleSlashCommand\<close>. The
  properties below are about one invocation of the handler.
\<close>

subsection \<open>Reading a run\<close>

fun isAck :: "event \<Rightarrow> bool" where
  "isAck (EvAck m) = True"
| "isAck ev = False"

fun isRespond :: "event \<Rightarrow> bool" where
  "isRespond (EvRespond m) = True"
| "isRespond ev = False"

fun isDispatch :: "event \<Rightarrow> bool" where
  "isDispatch (EvDispatch a) = True"
| "isDispatch ev = False"

fun isUpsert :: "event \<Rightarrow> bool" where
  "isUpsert (EvUpsertChannelPairingRequest a) = True"
| "isUpsert ev = False"

fun isRuntimeError :: "event \<Rightarrow> bool" where
  "isRuntimeError (EvRuntimeError s) = True"
| "isRuntimeError ev = False"

definition dispatched :: "event list \<times> outcome \<Rightarrow> bool" where
  "dispatched run = list_ex isDispatch (calls run)"

definition responded :: "event list \<times> outcome \<Rightarrow> bool" where
  "responded run = list_ex isRespond (calls run)"

text \<open>The fixed messages of the handler.\<close>

definition notAllowedMessage :: slack_message where
  "notAllowedMessage = ephemeral ''This channel is not allowed.''"

definition failureMessage :: slack_message where
  "failureMessage = ephemeral ''Sorry, something went wrong handling that command.''"

definition messageRequired :: slack_message where
  "messageRequired = ephemeral ''Message required.''"

subsection \<open>The channel config resolver\<close>

text \<open>
  Modelled from the spec: \<^verbatim>\<open>resolveSlackChannelConfig\<close> of
  \<^verbatim>\<open>src/slack/monitor/channel-config.ts\<close>, which is not among the sources (only its test
  is). Section 4.1 of the specification: the entry is looked up under the exact channel
  id, then the exact channel name, then the wildcard key; \<^verbatim>\<open>requireMention\<close> is the
  matched entry's explicit value, else \<^verbatim>\<open>defaultRequireMention\<close>, else true;
  \<^verbatim>\<open>allowed\<close> is true for an absent entry or an absent field and false for an explicit
  false on the matched entry. The optional fields are those of the matched entry.
\<close>

definition lookupChannelEntry ::
  "(string \<times> channel_config) list \<Rightarrow> string \<Rightarrow> string option \<Rightarrow> channel_config option" where
  "lookupChannelEntry channels channelId channelName =
     (case map_of channels channelId of
        Some e \<Rightarrow> Some e
      | None \<Rightarrow>
          (case (case channelName of None \<Rightarrow> None | Some n \<Rightarrow> map_of channels n) of
             Some e \<Rightarrow> Some e
           | None \<Rightarrow> map_of channels ''*''))"

definition resolveSlackChannelConfig_spec :: "resolve_config_args \<Rightarrow> resolved_channel_config" where
  "resolveSlackChannelConfig_spec a =
     (let requireMentionDefault =
            (case rc_defaultRequireMention a of None \<Rightarrow> True | Some b \<Rightarrow> b);
          matched = (case rc_channels a of
                       None \<Rightarrow> None
                     | Some channels \<Rightarrow>
                         lookupChannelEntry channels (rc_channelId a) (rc_channelName a))
      in case matched of
           None \<Rightarrow> \<lparr>allowed = True, requireMention = requireMentionDefault,
                    users = None, systemPrompt = None, skills = None\<rparr>
         | Some e \<Rightarrow>
             \<lparr>allowed = (case cc_allowed e of None \<Rightarrow> True | Some b \<Rightarrow> b),
              requireMention =
                (case cc_requireMention e of None \<Rightarrow> requireMentionDefault | Some b \<Rightarrow> b),
              users = cc_users e,
              systemPrompt = cc_systemPrompt e,
              skills = cc_skills e\<rparr>)"

subsection \<open>An example installation\<close>

text \<open>
  A concrete context, concrete imports and a concrete command, on which the theorems
  below are instantiated. The helpers of \<^verbatim>\<open>allow-list.ts\<close> and \<^verbatim>\<open>policy.ts\<close>
  are instantiated along sections 4.2 and 4.4 of the specification: a list matches on
  the wildcard, on the id, or on the lower-cased name; a room without a configured
  user list admits every sender; the room policy admits a room under the \<^verbatim>\<open>open\<close> policy
  when no channel list is configured or the channel is allowed in it.
\<close>

definition toLowerCase :: "string \<Rightarrow> string" where
  "toLowerCase s =
     map (\<lambda>c. case map_of (zip ''ABCDEFGHIJKLMNOPQRSTUVWXYZ''
                                ''abcdefghijklmnopqrstuvwxyz'') c of
                None \<Rightarrow> c
              | Some l \<Rightarrow> l) s"

definition exampleAllowListMatches :: "allow_list_args \<Rightarrow> bool" where
  "exampleAllowListMatches a =
     (''*'' \<in> set (al_allowList a)
      \<or> al_id a \<in> set (al_allowList a)
      \<or> (case al_name a of
            None \<Rightarrow> False
          | Some n \<Rightarrow> toLowerCase n \<in> set (al_allowList a)))"

definition exampleCommand :: slack_command where
  "exampleCommand =
     \<lparr>user_id = ''U1'', user_name = Some ''alice'', channel_id = ''C1'',
      channel_name = ''general'', trigger_id = ''T1''\<rparr>"

definition exampleChannel :: "string \<Rightarrow> channel_info" where
  "exampleChannel t =
     \<lparr>ci_name = Some ''general'', ci_type = Some t,
      ci_topic = Some ''Releases'', ci_purpose = None\<rparr>"

definition exampleCtx :: "unit slack_monitor_context" where
  "exampleCtx =
     \<lparr>cfg = (),
      runtime_error = Some (\<lambda>_. Inr ()),
      botUserId = Some ''UBOT'',
      teamId = ''T0'',
      allowFrom = [],
      dmEnabled = True,
      dmPolicy = ''pairing'',
      channelsConfig =
        Some [(''C1'', \<lparr>cc_requireMention = None, cc_allowed = Some False,
                          cc_users = Some [''U1''], cc_systemPrompt = Some ''Be brief.'',
                          cc_skills = Some [''search'']\<rparr>)],
      defaultRequireMention = None,
      useAccessGroups = True,
      groupPolicy = ''open'',
      textLimit = 4000,
      resolveChannelName = (\<lambda>_. Inr (Some (exampleChannel ''channel''))),
      isChannelAllowed = (\<lambda>_. Inr True),
      resolveUserName = (\<lambda>_. Inr (Some \<lparr>ui_name = Some ''Alice''\<rparr>))\<rparr>"

definition exampleDeps :: "unit slash_imports" where
  "exampleDeps =
     \<lparr>readChannelAllowFromStore = (\<lambda>_. Inr []),
      upsertChannelPairingRequest = (\<lambda>_. Inr \<lparr>code = ''K7Q2'', created = True\<rparr>),
      resolveAgentRoute =
        (\<lambda>_ a. Inr \<lparr>agentId = ''main'', sessionKey = ''agent:main:main'',
                     accountId = ra_accountId a\<rparr>),
      dispatchReplyWithDispatcher =
        (\<lambda>_ _. Inr \<lparr>counts = \<lparr>final = 0, tool = 0, block = 0\<rparr>\<rparr>),
      deliverSlackSlashReplies = (\<lambda>_. Inr ()),
      normalizeAllowList = (\<lambda>xs. filter truthy (map trim xs)),
      normalizeAllowListLower = (\<lambda>xs. map toLowerCase (filter truthy (map trim xs))),
      allowListMatches = exampleAllowListMatches,
      resolveSlackUserAllowed =
        (\<lambda>a. case ua_allowList a of
                None \<Rightarrow> True
              | Some xs \<Rightarrow>
                  xs = [] \<or> exampleAllowListMatches
                    \<lparr>al_allowList = xs, al_id = ua_userId a,
                     al_name = Some (ua_userName a)\<rparr>),
      resolveSlackChannelConfig = (\<lambda>a. Some (resolveSlackChannelConfig_spec a)),
      isSlackRoomAllowedByPolicy =
        (\<lambda>a. pa_groupPolicy a = ''open''
              \<and> (pa_channelAllowlistConfigured a \<longrightarrow> pa_channelAllowed a)),
      buildPairingReply = (\<lambda>a. pp_idLine a @ ''; pairing code: '' @ pp_code a),
      resolveEffectiveMessagesConfig = (\<lambda>_ _. \<lparr>responsePrefix = None\<rparr>),
      danger = (\<lambda>s. s),
      dateNow = 0\<rparr>"

definition exampleAccount :: resolved_account where
  "exampleAccount = \<lparr>acc_accountId = ''default''\<rparr>"

definition exampleSlashCommand :: slash_command_config where
  "exampleSlashCommand =
     \<lparr>sc_enabled = True, sc_name = ''clawd'', sc_sessionPrefix = ''slack:slash'',
      sc_ephemeral = True\<rparr>"

definition exampleParams :: handler_params where
  "exampleParams =
     \<lparr>command = exampleCommand, ack = (\<lambda>_. Inr ()), respond = (\<lambda>_. Inr ()),
      prompt = ''status''\<rparr>"

section \<open>Properties of the handler\<close>

subsection \<open>Sequencing\<close>

lemma fst_bind_io:
  "fst (bind_io m f) = fst m @ (case snd m of Next v \<Rightarrow> fst (f v) | _ \<Rightarrow> [])"
  by (cases m) (auto simp: bind_io_def split: step.splits prod.splits)

lemma snd_bind_io:
  "snd (bind_io m f) = (case snd m of Next v \<Rightarrow> snd (f v) | Throw e \<Rightarrow> Throw e | Return \<Rightarrow> Return)"
  by (cases m) (auto simp: bind_io_def split: step.splits prod.splits)

lemma fst_call [simp]: "fst (call ev r) = [ev]"
  by (simp add: call_def)

lemma snd_call: "snd (call ev r) = (case r of Inl e \<Rightarrow> Throw e | Inr v \<Rightarrow> Next v)"
  by (simp add: call_def)

lemma fst_next_io [simp]: "fst (next_io v) = []"
  by (simp add: next_io_def)
lemma snd_next_io [simp]: "snd (next_io v) = Next v"
  by (simp add: next_io_def)
lemma fst_return_io [simp]: "fst return_io = []"
  by (simp add: return_io_def)
lemma snd_return_io [simp]: "snd return_io = Return"
  by (simp add: return_io_def)

lemma trim_empty_iff: "trim s = [] \<longleftrightarrow> list_all isWhiteSpace s"
proof -
  have "trim s = [] \<longleftrightarrow> (\<forall>c \<in> set (dropWhile isWhiteSpace s). isWhiteSpace c)"
    by (simp add: trim_def dropWhile_eq_Nil_conv)
  also have "\<dots> \<longleftrightarrow> dropWhile isWhiteSpace s = []"
  proof
    assume a: "\<forall>c \<in> set (dropWhile isWhiteSpace s). isWhiteSpace c"
    show "dropWhile isWhiteSpace s = []"
    proof (rule ccontr)
      assume ne: "dropWhile isWhiteSpace s \<noteq> []"
      then have "\<not> isWhiteSpace (hd (dropWhile isWhiteSpace s))" by (rule hd_dropWhile)
      moreover have "hd (dropWhile isWhiteSpace s) \<in> set (dropWhile isWhiteSpace s)"
        using ne by (rule hd_in_set)
      ultimately show False using a by blast
    qed
  next
    assume "dropWhile isWhiteSpace s = []"
    then show "\<forall>c \<in> set (dropWhile isWhiteSpace s). isWhiteSpace c"
      by (simp del: dropWhile_eq_Nil_conv)
  qed
  also have "\<dots> \<longleftrightarrow> list_all isWhiteSpace s"
    by (simp add: dropWhile_eq_Nil_conv list_all_iff)
  finally show ?thesis .
qed

lemma handle_calls:
  "calls (handleSlashCommand ctx deps account slashCommand p) =
     fst (tryBody ctx deps account slashCommand p) @
     (case snd (tryBody ctx deps account slashCommand p) of
        Throw err \<Rightarrow> fst (catchBlock ctx deps p err) | _ \<Rightarrow> [])"
  by (auto simp: handleSlashCommand_def calls_def split: prod.splits step.splits)

lemma catchBlock_calls:
  "list_all (\<lambda>ev. ev = EvRespond failureMessage \<or> (\<exists>s. ev = EvRuntimeError s))
     (fst (catchBlock ctx deps p err))"
  by (auto simp: catchBlock_def fst_bind_io snd_call failureMessage_def split: option.splits sum.splits)

lemma tryBody_blank:
  "list_all isWhiteSpace (prompt p) \<Longrightarrow>
   fst (tryBody ctx deps account slashCommand p) = [EvAck (Some messageRequired)]"
  by (simp add: tryBody_def trim_empty_iff[THEN iffD2] truthy_def fst_bind_io snd_call messageRequired_def
      split: sum.splits)

text \<open>
  Claim C2. When the prompt is empty or consists of white space only, the first call of
  the handler is \<^verbatim>\<open>ack\<close> with the ephemeral text "Message required.", the dispatcher is
  never called, and the plain \<^verbatim>\<open>ack()\<close> of a real invocation is never made. This holds
  whatever the collaborators do, also when that \<^verbatim>\<open>ack\<close> throws.
\<close>

theorem blank_prompt_rejected:
  assumes "list_all isWhiteSpace (prompt p)"
  shows "take 1 (calls (handleSlashCommand ctx deps account slashCommand p))
           = [EvAck (Some messageRequired)]
       \<and> \<not> dispatched (handleSlashCommand ctx deps account slashCommand p)
       \<and> EvAck None \<notin> set (calls (handleSlashCommand ctx deps account slashCommand p))"
proof -
  let ?run = "handleSlashCommand ctx deps account slashCommand p"
  have c: "calls ?run = EvAck (Some messageRequired) #
     (case snd (tryBody ctx deps account slashCommand p) of
        Throw err \<Rightarrow> fst (catchBlock ctx deps p err) | _ \<Rightarrow> [])"
    by (simp add: handle_calls tryBody_blank[OF assms])
  have k: "\<And>err. list_all (\<lambda>ev. \<not> isDispatch ev \<and> ev \<noteq> EvAck None) (fst (catchBlock ctx deps p err))"
    using catchBlock_calls[of ctx deps p] by (fastforce simp: list_all_iff)
  show ?thesis
    using k by (auto simp: c dispatched_def list_ex_iff list_all_iff split: step.splits)
qed

text \<open>
  The theorem at the example installation, for a prompt made of a space and a tab.
\<close>

theorem blank_prompt_rejected_witness:
  "list_all isWhiteSpace (prompt (exampleParams\<lparr>prompt := [CHR 0x20, CHR 0x09]\<rparr>))
   \<and> take 1 (calls (handleSlashCommand exampleCtx exampleDeps exampleAccount exampleSlashCommand
         (exampleParams\<lparr>prompt := [CHR 0x20, CHR 0x09]\<rparr>))) = [EvAck (Some messageRequired)]
   \<and> \<not> dispatched (handleSlashCommand exampleCtx exampleDeps exampleAccount exampleSlashCommand
         (exampleParams\<lparr>prompt := [CHR 0x20, CHR 0x09]\<rparr>))
   \<and> EvAck None \<notin> set (calls (handleSlashCommand exampleCtx exampleDeps exampleAccount
         exampleSlashCommand (exampleParams\<lparr>prompt := [CHR 0x20, CHR 0x09]\<rparr>)))"
proof -
  have h: "list_all isWhiteSpace (prompt (exampleParams\<lparr>prompt := [CHR 0x20, CHR 0x09]\<rparr>))"
    by (simp add: isWhiteSpace_def)
  show ?thesis
    using h blank_prompt_rejected[OF h, of exampleCtx exampleDeps exampleAccount exampleSlashCommand]
    by simp
qed

lemma list_all_bind_io:
  "list_all P (fst m) \<Longrightarrow> (\<And>v. snd m = Next v \<Longrightarrow> list_all P (fst (f v))) \<Longrightarrow>
   list_all P (fst (bind_io m f))"
  by (auto simp: fst_bind_io split: step.splits)

lemma list_all_call: "P ev \<Longrightarrow> list_all P (fst (call ev r))"
  by simp

lemma fst_bind_call:
  "fst (bind_io (call ev r) f) = ev # (case r of Inl e \<Rightarrow> [] | Inr v \<Rightarrow> fst (f v))"
  by (simp add: fst_bind_io snd_call split: sum.splits)

lemma snd_bind_call:
  "snd (bind_io (call ev r) f) = (case r of Inl e \<Rightarrow> Throw e | Inr v \<Rightarrow> snd (f v))"
  by (simp add: snd_bind_io snd_call split: sum.splits)

lemma dmBranch_calls:
  "list_all (\<lambda>ev. \<not> isAck ev \<and> \<not> isDispatch ev) (fst (dmBranch ctx deps p d l c))"
  unfolding dmBranch_def Let_def
  by (auto intro!: list_all_bind_io list_all_call)

lemma roomBranch_calls:
  "list_all (\<lambda>ev. ev = EvRespond notAllowedMessage) (fst (roomBranch ctx deps p r ci c0))"
  unfolding roomBranch_def Let_def notAllowedMessage_def
  by (auto intro!: list_all_bind_io list_all_call)

lemma dispatchStage_calls:
  "list_all (\<lambda>ev. \<not> isAck ev) (fst (dispatchStage ctx deps account sc p ci d g r ca cc))"
  unfolding dispatchStage_def Let_def
  by (auto intro!: list_all_bind_io list_all_call)

lemma list_all_mono': "list_all P xs \<Longrightarrow> (\<And>x. P x \<Longrightarrow> Q x) \<Longrightarrow> list_all Q xs"
  by (auto simp: list_all_iff)

lemma tryBody_nonblank:
  assumes "\<not> list_all isWhiteSpace (prompt p)"
  shows "\<exists>rest. fst (tryBody ctx deps account sc p) = EvAck None # rest
            \<and> list_all (\<lambda>ev. \<not> isAck ev) rest"
proof -
  have t: "truthy (trim (prompt p))" using assms by (simp add: truthy_def trim_empty_iff)
  show ?thesis
    unfolding tryBody_def Let_def
    apply (simp only: t not_True_eq_False if_False fst_bind_call list.inject simp_thms ex_simps)
    apply (auto intro!: list_all_bind_io list_all_call
                  list_all_mono'[OF dmBranch_calls] list_all_mono'[OF roomBranch_calls]
                  dispatchStage_calls split: sum.splits)
    done
qed


lemma catchBlock_noack:
  "list_all (\<lambda>ev. \<not> isAck ev) (fst (catchBlock ctx deps p err))"
  by (rule list_all_mono'[OF catchBlock_calls]) auto

text \<open>
  Claim C3. When the prompt is not blank, the plain \<^verbatim>\<open>ack()\<close> is the first call of the
  invocation and is made once: every other call (channel-name resolution, the
  allow-list store read and the dispatch among them) comes strictly after it.
\<close>

theorem ack_before_work:
  assumes "\<not> list_all isWhiteSpace (prompt p)"
  shows "take 1 (calls (handleSlashCommand ctx deps account slashCommand p)) = [EvAck None]
       \<and> list_all (\<lambda>ev. \<not> isAck ev)
            (drop 1 (calls (handleSlashCommand ctx deps account slashCommand p)))"
proof -
  obtain rest where r: "fst (tryBody ctx deps account slashCommand p) = EvAck None # rest"
    and n: "list_all (\<lambda>ev. \<not> isAck ev) rest"
    using tryBody_nonblank[OF assms] by blast
  show ?thesis
    using n catchBlock_noack[of ctx deps p]
    by (auto simp: handle_calls r split: step.splits)
qed

text \<open>The theorem at the example installation, for the prompt "status".\<close>

theorem ack_before_work_witness:
  "\<not> list_all isWhiteSpace (prompt exampleParams)
   \<and> take 1 (calls (handleSlashCommand exampleCtx exampleDeps exampleAccount exampleSlashCommand
         exampleParams)) = [EvAck None]
   \<and> list_all (\<lambda>ev. \<not> isAck ev)
        (drop 1 (calls (handleSlashCommand exampleCtx exampleDeps exampleAccount
           exampleSlashCommand exampleParams)))"
proof -
  have h: "\<not> list_all isWhiteSpace (prompt exampleParams)"
    by (simp add: exampleParams_def isWhiteSpace_def)
  show ?thesis
    using h ack_before_work[OF h, of exampleCtx exampleDeps exampleAccount exampleSlashCommand]
    by simp
qed

subsection \<open>The room branch\<close>

lemma dmBranch_skip: "\<not> d \<Longrightarrow> dmBranch ctx deps p d l c = next_io c"
  by (simp add: dmBranch_def)

lemma roomBranch_skip: "\<not> r \<Longrightarrow> roomBranch ctx deps p r ci c0 = next_io c0"
  by (simp add: roomBranch_def)

lemma roomBranch_rejects:
  assumes "useAccessGroups ctx"
    and "resolveSlackChannelConfig deps
           \<lparr>rc_channelId = channel_id (command p), rc_channelName = channelNameOf ci,
            rc_channels = channelsConfig ctx,
            rc_defaultRequireMention = defaultRequireMention ctx\<rparr> = Some rc"
    and "\<not> allowed rc"
  shows "fst (roomBranch ctx deps p True ci c0) = [EvRespond notAllowedMessage]"
    and "snd (roomBranch ctx deps p True ci c0) \<noteq> Next v"
  using assms
  by (auto simp: roomBranch_def Let_def fst_bind_io snd_bind_io snd_call
        notAllowedMessage_def split: sum.splits step.splits)

text \<open>
  Claim C1, as amended. With access-group enforcement enabled
  (\<^verbatim>\<open>ctx.useAccessGroups\<close>), a command in a room (channel type \<^verbatim>\<open>channel\<close> or
  \<^verbatim>\<open>group\<close>) whose resolved channel config has \<^verbatim>\<open>allowed = false\<close> is never
  dispatched, whatever \<^verbatim>\<open>isSlackRoomAllowedByPolicy\<close> returns; and once the prompt is not blank,
  the sender is not the bot, \<^verbatim>\<open>ack\<close> has returned and the channel-allowed predicate has
  returned, the handler answers with the ephemeral "This channel is not allowed.".
\<close>

theorem room_not_allowed_rejected:
  assumes ag: "useAccessGroups ctx"
    and ci: "resolveChannelName ctx (channel_id (command p)) = Inr ci"
    and room: "channelTypeOf (command p) ci = Some ''channel''
             \<or> channelTypeOf (command p) ci = Some ''group''"
    and rc: "resolveSlackChannelConfig deps
           \<lparr>rc_channelId = channel_id (command p), rc_channelName = channelNameOf ci,
            rc_channels = channelsConfig ctx,
            rc_defaultRequireMention = defaultRequireMention ctx\<rparr> = Some rc"
    and na: "\<not> allowed rc"
  shows "\<not> dispatched (handleSlashCommand ctx deps account slashCommand p)
       \<and> (\<not> list_all isWhiteSpace (prompt p)
          \<and> \<not> (truthyOpt (botUserId ctx) \<and> Some (user_id (command p)) = botUserId ctx)
          \<and> ack p None = Inr ()
          \<and> isChannelAllowed ctx
               \<lparr>ca_channelId = channel_id (command p), ca_channelName = channelNameOf ci,
                ca_channelType = channelTypeOf (command p) ci\<rparr> = Inr b
          \<longrightarrow> EvRespond notAllowedMessage
                \<in> set (calls (handleSlashCommand ctx deps account slashCommand p)))"
proof -
  have nd: "\<not> (channelTypeOf (command p) ci = Some ''im'')" using room by auto
  have r: "(channelTypeOf (command p) ci = Some ''channel''
             \<or> channelTypeOf (command p) ci = Some ''group'') = True" using room by simp
  note rr = roomBranch_rejects[OF ag rc na]
  have body: "list_all (\<lambda>ev. \<not> isDispatch ev) (fst (tryBody ctx deps account slashCommand p))"
    unfolding tryBody_def Let_def
    by (auto simp: fst_bind_call fst_bind_io snd_bind_io snd_call ci nd r dmBranch_skip rr
          split: sum.splits step.splits)
  have cb: "\<And>err. list_all (\<lambda>ev. \<not> isDispatch ev) (fst (catchBlock ctx deps p err))"
    by (rule list_all_mono'[OF catchBlock_calls]) auto
  have 1: "\<not> dispatched (handleSlashCommand ctx deps account slashCommand p)"
    using body cb by (auto simp: dispatched_def handle_calls list_ex_iff list_all_iff split: step.splits)
  have 2: "EvRespond notAllowedMessage
                \<in> set (fst (tryBody ctx deps account slashCommand p))"
    if "\<not> list_all isWhiteSpace (prompt p)"
      "\<not> (truthyOpt (botUserId ctx) \<and> Some (user_id (command p)) = botUserId ctx)"
      "ack p None = Inr ()"
      "isChannelAllowed ctx
               \<lparr>ca_channelId = channel_id (command p), ca_channelName = channelNameOf ci,
                ca_channelType = channelTypeOf (command p) ci\<rparr> = Inr b"
  proof -
    have t: "truthy (trim (prompt p))" using that(1) by (simp add: truthy_def trim_empty_iff)
    show ?thesis
      unfolding tryBody_def Let_def using that(2)
      by (auto simp: t that(3,4) fst_bind_call fst_bind_io snd_bind_io snd_call ci nd r dmBranch_skip rr
            storeAllowFromOf_def catchDefault_def notAllowedMessage_def
          split: sum.splits step.splits)
  qed
  show ?thesis using 1 2 by (auto simp: handle_calls)
qed


lemmas example_defs =
  exampleCtx_def exampleDeps_def exampleParams_def exampleCommand_def exampleChannel_def
  exampleAccount_def exampleSlashCommand_def exampleAllowListMatches_def
  resolveSlackChannelConfig_spec_def lookupChannelEntry_def toLowerCase_def

lemmas handler_defs =
  handleSlashCommand_def tryBody_def catchBlock_def dmBranch_def roomBranch_def
  dispatchStage_def buildCtxPayload_def groupSystemPromptOf_def channelDescriptionOf_def
  channelTypeOf_def channelNameOf_def storeAllowFromOf_def effectiveAllowFromOf_def
  catchDefault_def bind_io_def call_def next_io_def return_io_def calls_def settles_def
  dispatched_def responded_def truthy_def truthyOpt_def trim_def isWhiteSpace_def
  ephemeral_def notAllowedMessage_def failureMessage_def messageRequired_def Let_def

text \<open>
  The theorem at the example installation, with a room policy that admits every room: the
  policy alone would permit the channel, the resolved \<^verbatim>\<open>allowed\<close> is false, and the
  command is rejected.
\<close>

theorem room_not_allowed_rejected_witness:
  "useAccessGroups exampleCtx
   \<and> resolveChannelName exampleCtx (channel_id (command exampleParams))
       = Inr (Some (exampleChannel ''channel''))
   \<and> channelTypeOf (command exampleParams) (Some (exampleChannel ''channel'')) = Some ''channel''
   \<and> isSlackRoomAllowedByPolicy (exampleDeps\<lparr>isSlackRoomAllowedByPolicy := (\<lambda>_. True)\<rparr>)
        \<lparr>pa_groupPolicy = groupPolicy exampleCtx, pa_channelAllowlistConfigured = True,
         pa_channelAllowed = False\<rparr>
   \<and> \<not> dispatched (handleSlashCommand exampleCtx
          (exampleDeps\<lparr>isSlackRoomAllowedByPolicy := (\<lambda>_. True)\<rparr>)
          exampleAccount exampleSlashCommand exampleParams)
   \<and> EvRespond notAllowedMessage \<in> set (calls (handleSlashCommand exampleCtx
          (exampleDeps\<lparr>isSlackRoomAllowedByPolicy := (\<lambda>_. True)\<rparr>)
          exampleAccount exampleSlashCommand exampleParams))"
proof -
  let ?deps = "exampleDeps\<lparr>isSlackRoomAllowedByPolicy := (\<lambda>_. True)\<rparr>"
  let ?ci = "Some (exampleChannel ''channel'')"
  let ?rc = "\<lparr>allowed = False, requireMention = True, users = Some [''U1''],
             systemPrompt = Some ''Be brief.'', skills = Some [''search'']\<rparr>"
  have ag: "useAccessGroups exampleCtx" by (simp add: exampleCtx_def)
  have ci: "resolveChannelName exampleCtx (channel_id (command exampleParams)) = Inr ?ci"
    by (simp add: exampleCtx_def)
  have ty: "channelTypeOf (command exampleParams) ?ci = Some ''channel''"
    by (simp add: channelTypeOf_def exampleChannel_def)
  have rc: "resolveSlackChannelConfig ?deps
           \<lparr>rc_channelId = channel_id (command exampleParams), rc_channelName = channelNameOf ?ci,
            rc_channels = channelsConfig exampleCtx,
            rc_defaultRequireMention = defaultRequireMention exampleCtx\<rparr> = Some ?rc"
    by (simp add: example_defs channelNameOf_def)
  have na: "\<not> allowed ?rc" by simp
  have pre: "\<not> list_all isWhiteSpace (prompt exampleParams)
          \<and> \<not> (truthyOpt (botUserId exampleCtx)
                \<and> Some (user_id (command exampleParams)) = botUserId exampleCtx)
          \<and> ack exampleParams None = Inr ()
          \<and> isChannelAllowed exampleCtx
               \<lparr>ca_channelId = channel_id (command exampleParams),
                ca_channelName = channelNameOf ?ci,
                ca_channelType = channelTypeOf (command exampleParams) ?ci\<rparr> = Inr True"
    by (simp add: example_defs isWhiteSpace_def)
  show ?thesis
    using room_not_allowed_rejected[OF ag ci disjI1[OF ty] rc na,
        of exampleAccount exampleSlashCommand True] pre ag ci ty
    by simp
qed

text \<open>
  Claim C1 as stated, without the condition on \<^verbatim>\<open>ctx.useAccessGroups\<close>, fails: both
  tests of the resolved \<^verbatim>\<open>allowed\<close> flag (lines 141 and 160) are guarded by
  \<^verbatim>\<open>ctx.useAccessGroups\<close>. With enforcement off, the command of the example
  installation, in a room whose config resolves \<^verbatim>\<open>allowed = false\<close>, is dispatched and
  no "not allowed" message is sent.
\<close>

theorem room_not_allowed_counterexample:
  "channelTypeOf (command exampleParams) (Some (exampleChannel ''channel'')) = Some ''channel''
   \<and> map_option allowed (resolveSlackChannelConfig exampleDeps
        \<lparr>rc_channelId = ''C1'', rc_channelName = Some ''general'',
         rc_channels = channelsConfig (exampleCtx\<lparr>useAccessGroups := False\<rparr>),
         rc_defaultRequireMention = defaultRequireMention (exampleCtx\<lparr>useAccessGroups := False\<rparr>)\<rparr>)
       = Some False
   \<and> dispatched (handleSlashCommand (exampleCtx\<lparr>useAccessGroups := False\<rparr>) exampleDeps
        exampleAccount exampleSlashCommand exampleParams)
   \<and> EvRespond notAllowedMessage \<notin> set (calls (handleSlashCommand
        (exampleCtx\<lparr>useAccessGroups := False\<rparr>) exampleDeps
        exampleAccount exampleSlashCommand exampleParams))"
  by (simp add: example_defs handler_defs)

subsection \<open>The direct-message branch\<close>

lemma storeAllowFromOf_cases:
  "storeAllowFromOf deps =
     Inr (case readChannelAllowFromStore deps ''slack'' of Inl e \<Rightarrow> [] | Inr xs \<Rightarrow> xs)"
  by (simp add: storeAllowFromOf_def catchDefault_def split: sum.splits)

lemma dmBranch_pairing:
  assumes pol: "dmPolicy ctx = ''pairing''"
    and en: "dmEnabled ctx"
    and sender: "resolveUserName ctx (user_id (command p)) = Inr sender"
    and np: "\<not> allowListMatches deps
               \<lparr>al_allowList = l, al_id = user_id (command p),
                al_name = (case sender of None \<Rightarrow> None | Some s \<Rightarrow> ui_name s)\<rparr>"
    and up: "upsertChannelPairingRequest deps
               \<lparr>pr_channel = ''slack'', pr_id = user_id (command p),
                pr_meta_name = (case sender of None \<Rightarrow> None | Some s \<Rightarrow> ui_name s)\<rparr> = Inr r"
  shows "fst (dmBranch ctx deps p True l c) =
           [EvResolveUserName (user_id (command p)),
            EvUpsertChannelPairingRequest
              \<lparr>pr_channel = ''slack'', pr_id = user_id (command p),
               pr_meta_name = (case sender of None \<Rightarrow> None | Some s \<Rightarrow> ui_name s)\<rparr>]
           @ (if created r
              then [EvRespond (ephemeral (buildPairingReply deps
                      \<lparr>pp_channel = ''slack'',
                       pp_idLine = ''Your Slack user id: '' @ user_id (command p),
                       pp_code = code r\<rparr>))]
              else [])"
    and "snd (dmBranch ctx deps p True l c) =
           (if created r
            then (case respond p (ephemeral (buildPairingReply deps
                      \<lparr>pp_channel = ''slack'',
                       pp_idLine = ''Your Slack user id: '' @ user_id (command p),
                       pp_code = code r\<rparr>)) of
                    Inl e \<Rightarrow> Throw e | Inr u \<Rightarrow> Return)
            else Return)"
  using assms
  by (auto simp: dmBranch_def Let_def fst_bind_io snd_bind_io snd_call
        split: sum.splits step.splits)

lemma dmBranch_disabled:
  assumes "\<not> dmEnabled ctx"
  shows "fst (dmBranch ctx deps p True l c) = [EvRespond (ephemeral ''Slack DMs are disabled.'')]"
    and "snd (dmBranch ctx deps p True l c) =
           (case respond p (ephemeral ''Slack DMs are disabled.'') of
              Inl e \<Rightarrow> Throw e | Inr u \<Rightarrow> Return)"
  using assms
  by (auto simp: dmBranch_def Let_def fst_bind_io snd_bind_io snd_call
        split: sum.splits step.splits)

lemma catchBlock_shape:
  "fst (catchBlock ctx deps p err) =
     (case runtime_error ctx of
        None \<Rightarrow> [EvRespond failureMessage]
      | Some logError \<Rightarrow>
          EvRuntimeError (danger deps (''slack slash handler failed: '' @ errString err))
          # (case logError (danger deps (''slack slash handler failed: '' @ errString err)) of
               Inl e \<Rightarrow> [] | Inr u \<Rightarrow> [EvRespond failureMessage]))"
  by (auto simp: catchBlock_def fst_bind_io snd_call failureMessage_def
        split: option.splits sum.splits)


text \<open>
  Claim C5. Take a direct-message command under \<^verbatim>\<open>dmPolicy = "pairing"\<close> whose sender
  the allow-list matcher does not admit on the effective allow-list, and an upsert that
  returns \<^verbatim>\<open>{code, created}\<close>. The dispatcher is never called. In a run that calls the
  upsert, the pairing reply is sent exactly when \<^verbatim>\<open>created\<close> is true, and when it is
  false \<^verbatim>\<open>respond\<close> is not called at all. The upsert is called as soon as the prompt is
  not blank, the sender is not the bot, \<^verbatim>\<open>ack\<close> has returned, the channel is allowed
  and direct messages are enabled.
\<close>

theorem pairing_reply_iff_created:
  assumes ci: "resolveChannelName ctx (channel_id (command p)) = Inr ci"
    and dm: "channelTypeOf (command p) ci = Some ''im''"
    and pol: "dmPolicy ctx = ''pairing''"
    and store: "storeAllowFromOf deps = Inr storeAllowFrom"
    and sender: "resolveUserName ctx (user_id (command p)) = Inr sender"
    and np: "\<not> allowListMatches deps
               \<lparr>al_allowList = normalizeAllowListLower deps
                                 (effectiveAllowFromOf ctx deps storeAllowFrom),
                al_id = user_id (command p),
                al_name = (case sender of None \<Rightarrow> None | Some s \<Rightarrow> ui_name s)\<rparr>"
    and up: "upsertChannelPairingRequest deps
               \<lparr>pr_channel = ''slack'', pr_id = user_id (command p),
                pr_meta_name = (case sender of None \<Rightarrow> None | Some s \<Rightarrow> ui_name s)\<rparr> = Inr r"
  shows "\<not> dispatched (handleSlashCommand ctx deps account slashCommand p)
       \<and> (list_ex isUpsert (calls (handleSlashCommand ctx deps account slashCommand p))
          \<longrightarrow> (EvRespond (ephemeral (buildPairingReply deps
                      \<lparr>pp_channel = ''slack'',
                       pp_idLine = ''Your Slack user id: '' @ user_id (command p),
                       pp_code = code r\<rparr>))
                 \<in> set (calls (handleSlashCommand ctx deps account slashCommand p)))
                = created r
              \<and> (\<not> created r
                 \<longrightarrow> \<not> responded (handleSlashCommand ctx deps account slashCommand p)))
       \<and> (\<not> list_all isWhiteSpace (prompt p)
          \<and> \<not> (truthyOpt (botUserId ctx) \<and> Some (user_id (command p)) = botUserId ctx)
          \<and> ack p None = Inr ()
          \<and> isChannelAllowed ctx
               \<lparr>ca_channelId = channel_id (command p), ca_channelName = channelNameOf ci,
                ca_channelType = Some ''im''\<rparr> = Inr True
          \<and> dmEnabled ctx
          \<longrightarrow> list_ex isUpsert (calls (handleSlashCommand ctx deps account slashCommand p)))"
proof -
  let ?run = "handleSlashCommand ctx deps account slashCommand p"
  let ?body = "tryBody ctx deps account slashCommand p"
  let ?l = "normalizeAllowListLower deps (effectiveAllowFromOf ctx deps storeAllowFrom)"
  let ?msg = "EvRespond (ephemeral (buildPairingReply deps
                      \<lparr>pp_channel = ''slack'',
                       pp_idLine = ''Your Slack user id: '' @ user_id (command p),
                       pp_code = code r\<rparr>))"
  let ?reach = "truthy (trim (prompt p))
          \<and> \<not> (truthyOpt (botUserId ctx) \<and> Some (user_id (command p)) = botUserId ctx)
          \<and> ack p None = Inr ()
          \<and> isChannelAllowed ctx
               \<lparr>ca_channelId = channel_id (command p), ca_channelName = channelNameOf ci,
                ca_channelType = Some ''im''\<rparr> = Inr True"
  have ty: "(channelTypeOf (command p) ci = Some ''channel''
             \<or> channelTypeOf (command p) ci = Some ''group'') = False"
    using dm by simp
  have cb: "\<And>err. list_all (\<lambda>ev. \<not> isDispatch ev \<and> \<not> isUpsert ev)
              (fst (catchBlock ctx deps p err))"
    by (rule list_all_mono'[OF catchBlock_calls]) auto
  show ?thesis
  proof (cases "dmEnabled ctx")
    case False
    note d = dmBranch_disabled[OF False, of deps p ?l True]
    have b: "list_all (\<lambda>ev. \<not> isDispatch ev \<and> \<not> isUpsert ev) (fst ?body)"
      unfolding tryBody_def Let_def
      by (auto simp: fst_bind_call fst_bind_io snd_bind_io snd_call ci dm ty store d
            split: sum.splits step.splits)
    show ?thesis
      using b cb False
      by (auto simp: dispatched_def handle_calls list_ex_iff list_all_iff split: step.splits)
  next
    case True
    note d = dmBranch_pairing[OF pol True sender np up, of True]
    have b: "list_all (\<lambda>ev. \<not> isDispatch ev) (fst ?body)"
      unfolding tryBody_def Let_def
      by (auto simp: fst_bind_call fst_bind_io snd_bind_io snd_call ci dm ty store d
            split: sum.splits step.splits)
    have 1: "\<not> dispatched ?run"
      using b cb
      by (auto simp: dispatched_def handle_calls list_ex_iff list_all_iff split: step.splits)
    have sh: "fst ?body =
                [EvAck None, EvResolveChannelName (channel_id (command p)),
                 EvIsChannelAllowed \<lparr>ca_channelId = channel_id (command p),
                    ca_channelName = channelNameOf ci, ca_channelType = Some ''im''\<rparr>,
                 EvReadChannelAllowFromStore ''slack'',
                 EvResolveUserName (user_id (command p)),
                 EvUpsertChannelPairingRequest
                   \<lparr>pr_channel = ''slack'', pr_id = user_id (command p),
                    pr_meta_name = (case sender of None \<Rightarrow> None | Some s \<Rightarrow> ui_name s)\<rparr>]
                @ (if created r then [?msg] else [])"
      and st: "\<not> created r \<Longrightarrow> snd ?body = Return"
      if reach: ?reach
      unfolding tryBody_def Let_def using reach
      by (auto simp: fst_bind_call fst_bind_io snd_bind_io snd_call ci dm ty store d
            split: sum.splits step.splits)
    have 2: "(?msg \<in> set (calls ?run)) = created r \<and> (\<not> created r \<longrightarrow> \<not> responded ?run)"
      if u: "list_ex isUpsert (calls ?run)"
    proof -
      have ub: "list_ex isUpsert (fst ?body)"
        using u cb by (auto simp: handle_calls list_ex_iff list_all_iff split: step.splits)
      have reach: ?reach
        using ub unfolding tryBody_def Let_def
        by (auto simp: fst_bind_call fst_bind_io snd_bind_io snd_call ci dm ty store
              split: sum.splits step.splits if_splits)
      show ?thesis
      proof (cases "created r")
        case True
        then show ?thesis by (simp add: handle_calls sh[OF reach])
      next
        case False
        then show ?thesis by (simp add: handle_calls sh[OF reach] st[OF reach] responded_def)
      qed
    qed
    have 3: "list_ex isUpsert (calls ?run)" if "\<not> list_all isWhiteSpace (prompt p)"
      "\<not> (truthyOpt (botUserId ctx) \<and> Some (user_id (command p)) = botUserId ctx)"
      "ack p None = Inr ()"
      "isChannelAllowed ctx
               \<lparr>ca_channelId = channel_id (command p), ca_channelName = channelNameOf ci,
                ca_channelType = Some ''im''\<rparr> = Inr True"
    proof -
      have ?reach using that by (simp add: truthy_def trim_empty_iff)
      then show ?thesis by (simp add: handle_calls sh)
    qed
    show ?thesis using 1 2 3 by blast
  qed
qed

text \<open>
  The theorem at the example installation, for a direct message from a sender who is
  not allow-listed: once with a new pairing request and once with a repeated one.
\<close>

theorem pairing_reply_iff_created_witness:
  "dmPolicy exampleCtx = ''pairing''
   \<and> channelTypeOf (command exampleParams) (Some (exampleChannel ''im'')) = Some ''im''
   \<and> \<not> allowListMatches exampleDeps
         \<lparr>al_allowList = normalizeAllowListLower exampleDeps
                           (effectiveAllowFromOf exampleCtx exampleDeps []),
          al_id = ''U1'', al_name = Some ''Alice''\<rparr>
   \<and> created \<lparr>code = ''K7Q2'', created = True\<rparr>
   \<and> list_ex isUpsert (calls (handleSlashCommand
        (exampleCtx\<lparr>resolveChannelName := (\<lambda>_. Inr (Some (exampleChannel ''im'')))\<rparr>)
        exampleDeps exampleAccount exampleSlashCommand exampleParams))
   \<and> EvRespond (ephemeral ''Your Slack user id: U1; pairing code: K7Q2'')
       \<in> set (calls (handleSlashCommand
        (exampleCtx\<lparr>resolveChannelName := (\<lambda>_. Inr (Some (exampleChannel ''im'')))\<rparr>)
        exampleDeps exampleAccount exampleSlashCommand exampleParams))
   \<and> \<not> dispatched (handleSlashCommand
        (exampleCtx\<lparr>resolveChannelName := (\<lambda>_. Inr (Some (exampleChannel ''im'')))\<rparr>)
        exampleDeps exampleAccount exampleSlashCommand exampleParams)
   \<and> \<not> created \<lparr>code = ''K7Q2'', created = False\<rparr>
   \<and> list_ex isUpsert (calls (handleSlashCommand
        (exampleCtx\<lparr>resolveChannelName := (\<lambda>_. Inr (Some (exampleChannel ''im'')))\<rparr>)
        (exampleDeps\<lparr>upsertChannelPairingRequest :=
            (\<lambda>_. Inr \<lparr>code = ''K7Q2'', created = False\<rparr>)\<rparr>)
        exampleAccount exampleSlashCommand exampleParams))
   \<and> \<not> responded (handleSlashCommand
        (exampleCtx\<lparr>resolveChannelName := (\<lambda>_. Inr (Some (exampleChannel ''im'')))\<rparr>)
        (exampleDeps\<lparr>upsertChannelPairingRequest :=
            (\<lambda>_. Inr \<lparr>code = ''K7Q2'', created = False\<rparr>)\<rparr>)
        exampleAccount exampleSlashCommand exampleParams)
   \<and> \<not> dispatched (handleSlashCommand
        (exampleCtx\<lparr>resolveChannelName := (\<lambda>_. Inr (Some (exampleChannel ''im'')))\<rparr>)
        (exampleDeps\<lparr>upsertChannelPairingRequest :=
            (\<lambda>_. Inr \<lparr>code = ''K7Q2'', created = False\<rparr>)\<rparr>)
        exampleAccount exampleSlashCommand exampleParams)"
proof -
  let ?ctx = "exampleCtx\<lparr>resolveChannelName := (\<lambda>_. Inr (Some (exampleChannel ''im'')))\<rparr>"
  let ?deps = "exampleDeps\<lparr>upsertChannelPairingRequest :=
            (\<lambda>_. Inr \<lparr>code = ''K7Q2'', created = False\<rparr>)\<rparr>"
  let ?ci = "Some (exampleChannel ''im'')"
  let ?sender = "Some \<lparr>ui_name = Some ''Alice''\<rparr>"
  have ci: "resolveChannelName ?ctx (channel_id (command exampleParams)) = Inr ?ci"
    by (simp add: exampleCtx_def)
  have dm: "channelTypeOf (command exampleParams) ?ci = Some ''im''"
    by (simp add: channelTypeOf_def exampleChannel_def)
  have pol: "dmPolicy ?ctx = ''pairing''" and pol': "dmPolicy exampleCtx = ''pairing''"
    by (simp_all add: exampleCtx_def)
  have store: "storeAllowFromOf exampleDeps = Inr []" "storeAllowFromOf ?deps = Inr []"
    by (simp_all add: storeAllowFromOf_def catchDefault_def exampleDeps_def)
  have sender: "resolveUserName ?ctx (user_id (command exampleParams)) = Inr ?sender"
    by (simp add: exampleCtx_def)
  have np: "\<not> allowListMatches exampleDeps
               \<lparr>al_allowList = normalizeAllowListLower exampleDeps
                                 (effectiveAllowFromOf ?ctx exampleDeps []),
                al_id = user_id (command exampleParams),
                al_name = (case ?sender of None \<Rightarrow> None | Some s \<Rightarrow> ui_name s)\<rparr>"
    and np': "\<not> allowListMatches ?deps
               \<lparr>al_allowList = normalizeAllowListLower ?deps
                                 (effectiveAllowFromOf ?ctx ?deps []),
                al_id = user_id (command exampleParams),
                al_name = (case ?sender of None \<Rightarrow> None | Some s \<Rightarrow> ui_name s)\<rparr>"
    by (simp_all add: example_defs effectiveAllowFromOf_def)
  have up: "upsertChannelPairingRequest exampleDeps
               \<lparr>pr_channel = ''slack'', pr_id = user_id (command exampleParams),
                pr_meta_name = (case ?sender of None \<Rightarrow> None | Some s \<Rightarrow> ui_name s)\<rparr>
             = Inr \<lparr>code = ''K7Q2'', created = True\<rparr>"
    and up': "upsertChannelPairingRequest ?deps
               \<lparr>pr_channel = ''slack'', pr_id = user_id (command exampleParams),
                pr_meta_name = (case ?sender of None \<Rightarrow> None | Some s \<Rightarrow> ui_name s)\<rparr>
             = Inr \<lparr>code = ''K7Q2'', created = False\<rparr>"
    by (simp_all add: exampleDeps_def)
  have pre: "\<not> list_all isWhiteSpace (prompt exampleParams)
          \<and> \<not> (truthyOpt (botUserId ?ctx)
                \<and> Some (user_id (command exampleParams)) = botUserId ?ctx)
          \<and> ack exampleParams None = Inr ()
          \<and> isChannelAllowed ?ctx
               \<lparr>ca_channelId = channel_id (command exampleParams),
                ca_channelName = channelNameOf ?ci,
                ca_channelType = Some ''im''\<rparr> = Inr True
          \<and> dmEnabled ?ctx"
    by (simp add: example_defs isWhiteSpace_def)
  have m: "buildPairingReply exampleDeps
              \<lparr>pp_channel = ''slack'',
               pp_idLine = ''Your Slack user id: '' @ user_id (command exampleParams),
               pp_code = code \<lparr>code = ''K7Q2'', created = True\<rparr>\<rparr>
            = ''Your Slack user id: U1; pairing code: K7Q2''"
    by (simp add: example_defs)
  have l: "effectiveAllowFromOf ?ctx exampleDeps [] = effectiveAllowFromOf exampleCtx exampleDeps []"
    by (simp add: effectiveAllowFromOf_def exampleCtx_def)
  have u: "user_id (command exampleParams) = ''U1''"
    by (simp add: example_defs)
  note t1 = pairing_reply_iff_created[OF ci dm pol store(1) sender np up,
        of exampleAccount exampleSlashCommand]
  note t2 = pairing_reply_iff_created[OF ci dm pol store(2) sender np' up',
        of exampleAccount exampleSlashCommand]
  have a1: "list_ex isUpsert (calls (handleSlashCommand ?ctx exampleDeps exampleAccount
              exampleSlashCommand exampleParams))"
    using t1 pre by blast
  have a2: "list_ex isUpsert (calls (handleSlashCommand ?ctx ?deps exampleAccount
              exampleSlashCommand exampleParams))"
    using t2 pre by blast
  have b1: "EvRespond (ephemeral ''Your Slack user id: U1; pairing code: K7Q2'')
              \<in> set (calls (handleSlashCommand ?ctx exampleDeps exampleAccount
                    exampleSlashCommand exampleParams))"
    using t1 a1 m by simp
  have b2: "\<not> responded (handleSlashCommand ?ctx ?deps exampleAccount
              exampleSlashCommand exampleParams)"
    using t2 a2 by simp
  have c1: "\<not> dispatched (handleSlashCommand ?ctx exampleDeps exampleAccount
              exampleSlashCommand exampleParams)"
    using t1 by blast
  have c2: "\<not> dispatched (handleSlashCommand ?ctx ?deps exampleAccount
              exampleSlashCommand exampleParams)"
    using t2 by blast
  show ?thesis
    using pol' dm np[unfolded l u] a1 b1 c1 a2 b2 c2 by simp
qed

subsection \<open>Dispatch\<close>

lemma catchBlock_nodispatch:
  "list_all (\<lambda>ev. \<not> isDispatch ev) (fst (catchBlock ctx deps p err))"
  by (rule list_all_mono'[OF catchBlock_calls]) auto

lemma dmBranch_nodispatch:
  "list_all (\<lambda>ev. \<not> isDispatch ev) (fst (dmBranch ctx deps p d l c))"
  by (rule list_all_mono'[OF dmBranch_calls]) auto

lemma roomBranch_nodispatch:
  "list_all (\<lambda>ev. \<not> isDispatch ev) (fst (roomBranch ctx deps p r ci c0))"
  by (rule list_all_mono'[OF roomBranch_calls]) auto

lemma followed_bind_io:
  assumes "x \<in> set (fst (bind_io m f))"
    and "list_all (\<lambda>ev. ev \<noteq> x) (fst m)"
    and "\<And>v. snd m = Next v \<Longrightarrow> x \<in> set (fst (f v)) \<Longrightarrow>
           \<exists>pre post. fst (f v) = pre @ x # y # post"
  shows "\<exists>pre post. fst (bind_io m f) = pre @ x # y # post"
proof (cases "snd m")
  case (Next v)
  then have "x \<in> set (fst (f v))"
    using assms(1,2) by (auto simp: fst_bind_io list_all_iff)
  then obtain pre post where "fst (f v) = pre @ x # y # post"
    using assms(3)[OF Next] by blast
  then have "fst (bind_io m f) = (fst m @ pre) @ x # y # post"
    using Next by (simp add: fst_bind_io)
  then show ?thesis by blast
next
  case (Throw e)
  then show ?thesis using assms(1,2) by (auto simp: fst_bind_io list_all_iff)
next
  case Return
  then show ?thesis using assms(1,2) by (auto simp: fst_bind_io list_all_iff)
qed

lemma followed_if:
  "x \<in> set (fst (if c then A else B)) \<Longrightarrow>
   (c \<Longrightarrow> x \<in> set (fst A) \<Longrightarrow> \<exists>pre post. fst A = pre @ x # y # post) \<Longrightarrow>
   (\<not> c \<Longrightarrow> x \<in> set (fst B) \<Longrightarrow> \<exists>pre post. fst B = pre @ x # y # post) \<Longrightarrow>
   \<exists>pre post. fst (if c then A else B) = pre @ x # y # post"
  by (cases c) auto

lemma dispatch_then_deliver:
  assumes "EvDispatch a \<in> set (fst (bind_io (call (EvDispatch args) (dispatch args))
             (\<lambda>res. if final (counts res) + tool (counts res) + block (counts res) = 0
                     then bind_io (call (EvDeliver d) (deliver d)) (\<lambda>_. next_io ())
                     else next_io ())))"
    and "dispatch a = Inr res"
    and "final (counts res) + tool (counts res) + block (counts res) = 0"
  shows "\<exists>pre post. fst (bind_io (call (EvDispatch args) (dispatch args))
             (\<lambda>res. if final (counts res) + tool (counts res) + block (counts res) = 0
                     then bind_io (call (EvDeliver d) (deliver d)) (\<lambda>_. next_io ())
                     else next_io ()))
           = pre @ EvDispatch a # EvDeliver d # post"
proof -
  have a: "a = args"
    using assms(1) by (auto simp: fst_bind_call split: sum.splits if_splits)
  have "\<exists>post. fst (bind_io (call (EvDispatch args) (dispatch args))
             (\<lambda>res. if final (counts res) + tool (counts res) + block (counts res) = 0
                     then bind_io (call (EvDeliver d) (deliver d)) (\<lambda>_. next_io ())
                     else next_io ()))
        = [] @ EvDispatch args # EvDeliver d # post"
    using assms(2,3) unfolding a by (simp add: fst_bind_call)
  then show ?thesis unfolding a by blast
qed

lemma dispatchStage_delivers:
  assumes "EvDispatch a \<in> set (fst (dispatchStage ctx deps account sc p ci d g r ca cc))"
    and "dispatchReplyWithDispatcher deps (cfg ctx) a = Inr res"
    and "final (counts res) + tool (counts res) + block (counts res) = 0"
  shows "\<exists>pre post. fst (dispatchStage ctx deps account sc p ci d g r ca cc)
           = pre @ EvDispatch a
               # EvDeliver \<lparr>dl_replies = [], dl_ephemeral = sc_ephemeral sc,
                            dl_textLimit = textLimit ctx\<rparr> # post"
  using assms(1) unfolding dispatchStage_def Let_def
  apply (rule followed_bind_io)
   apply simp
  apply (erule followed_if)
   apply (simp add: fst_bind_call split: sum.splits)
  apply (erule followed_bind_io)
   apply simp
  apply (erule dispatch_then_deliver[where dispatch = "dispatchReplyWithDispatcher deps (cfg ctx)",
        OF _ assms(2,3)])
  done

lemma tryBody_delivers:
  assumes "EvDispatch a \<in> set (fst (tryBody ctx deps account sc p))"
    and "dispatchReplyWithDispatcher deps (cfg ctx) a = Inr res"
    and "final (counts res) + tool (counts res) + block (counts res) = 0"
  shows "\<exists>pre post. fst (tryBody ctx deps account sc p)
           = pre @ EvDispatch a
               # EvDeliver \<lparr>dl_replies = [], dl_ephemeral = sc_ephemeral sc,
                            dl_textLimit = textLimit ctx\<rparr> # post"
  using assms(1) unfolding tryBody_def Let_def
  apply (rule followed_if)
   apply (simp add: fst_bind_call split: sum.splits)
  apply (erule followed_bind_io)
   apply simp
  apply (erule followed_if)
   apply simp
  apply (erule followed_bind_io)
   apply simp
  apply (erule followed_bind_io)
   apply simp
  apply (erule followed_if)
   apply (simp add: fst_bind_call split: sum.splits)
  apply (erule followed_bind_io)
   apply simp
  apply (erule followed_bind_io)
   apply (rule list_all_mono'[OF dmBranch_nodispatch], fastforce)
  apply (erule followed_bind_io)
   apply (rule list_all_mono'[OF roomBranch_nodispatch], fastforce)
  apply (erule dispatchStage_delivers[OF _ assms(2,3)])
  done

text \<open>
  Claim C7. Whenever a run calls the dispatcher and the dispatcher returns counts whose
  sum \<^verbatim>\<open>final + tool + block\<close> is zero, the very next call of the run is
  \<^verbatim>\<open>deliverSlackSlashReplies\<close> with an empty list of replies.
\<close>

theorem empty_result_delivered:
  assumes "EvDispatch a \<in> set (calls (handleSlashCommand ctx deps account slashCommand p))"
    and "dispatchReplyWithDispatcher deps (cfg ctx) a = Inr res"
    and "final (counts res) + tool (counts res) + block (counts res) = 0"
  shows "\<exists>pre post. calls (handleSlashCommand ctx deps account slashCommand p)
           = pre @ EvDispatch a
               # EvDeliver \<lparr>dl_replies = [], dl_ephemeral = sc_ephemeral slashCommand,
                            dl_textLimit = textLimit ctx\<rparr> # post"
proof -
  have nb: "EvDispatch a \<notin> set (fst (catchBlock ctx deps p err))" for err
    using catchBlock_nodispatch[of ctx deps p err] by (fastforce simp: list_all_iff)
  have "EvDispatch a \<in> set (fst (tryBody ctx deps account slashCommand p))"
    using assms(1) nb by (auto simp: handle_calls split: step.splits)
  then obtain pre post where "fst (tryBody ctx deps account slashCommand p)
           = pre @ EvDispatch a
               # EvDeliver \<lparr>dl_replies = [], dl_ephemeral = sc_ephemeral slashCommand,
                            dl_textLimit = textLimit ctx\<rparr> # post"
    using tryBody_delivers[OF _ assms(2,3)] by blast
  then have "calls (handleSlashCommand ctx deps account slashCommand p)
           = pre @ EvDispatch a
               # EvDeliver \<lparr>dl_replies = [], dl_ephemeral = sc_ephemeral slashCommand,
                            dl_textLimit = textLimit ctx\<rparr>
               # (post @ (case snd (tryBody ctx deps account slashCommand p) of
                     Throw err \<Rightarrow> fst (catchBlock ctx deps p err) | _ \<Rightarrow> []))"
    by (simp add: handle_calls)
  then show ?thesis by blast
qed


text \<open>
  The theorem at the example installation, for a group direct message whose dispatch
  produces no reply.
\<close>

theorem empty_result_delivered_witness:
  "EvDispatch
     \<lparr>da_ctx = buildCtxPayload exampleDeps exampleSlashCommand exampleParams
                 (Some (exampleChannel ''mpim'')) False False True ''Alice'' None
                 \<lparr>agentId = ''main'', sessionKey = ''agent:main:main'', accountId = ''default''\<rparr>
                 True,
      da_responsePrefix = None, da_skillFilter = None\<rparr>
     \<in> set (calls (handleSlashCommand
          (exampleCtx\<lparr>resolveChannelName := (\<lambda>_. Inr (Some (exampleChannel ''mpim'')))\<rparr>)
          exampleDeps exampleAccount exampleSlashCommand exampleParams))
   \<and> final (counts \<lparr>counts = \<lparr>final = 0, tool = 0, block = 0\<rparr>\<rparr>)
       + tool (counts \<lparr>counts = \<lparr>final = 0, tool = 0, block = 0\<rparr>\<rparr>)
       + block (counts \<lparr>counts = \<lparr>final = 0, tool = 0, block = 0\<rparr>\<rparr>) = 0
   \<and> (\<exists>pre post. calls (handleSlashCommand
          (exampleCtx\<lparr>resolveChannelName := (\<lambda>_. Inr (Some (exampleChannel ''mpim'')))\<rparr>)
          exampleDeps exampleAccount exampleSlashCommand exampleParams)
        = pre @ EvDispatch
             \<lparr>da_ctx = buildCtxPayload exampleDeps exampleSlashCommand exampleParams
                 (Some (exampleChannel ''mpim'')) False False True ''Alice'' None
                 \<lparr>agentId = ''main'', sessionKey = ''agent:main:main'', accountId = ''default''\<rparr>
                 True,
              da_responsePrefix = None, da_skillFilter = None\<rparr>
           # EvDeliver \<lparr>dl_replies = [], dl_ephemeral = True, dl_textLimit = 4000\<rparr> # post)"
proof -
  let ?ctx = "exampleCtx\<lparr>resolveChannelName := (\<lambda>_. Inr (Some (exampleChannel ''mpim'')))\<rparr>"
  let ?a = "\<lparr>da_ctx = buildCtxPayload exampleDeps exampleSlashCommand exampleParams
                 (Some (exampleChannel ''mpim'')) False False True ''Alice'' None
                 \<lparr>agentId = ''main'', sessionKey = ''agent:main:main'', accountId = ''default''\<rparr>
                 True,
      da_responsePrefix = None, da_skillFilter = None\<rparr>"
  let ?res = "\<lparr>counts = \<lparr>final = 0, tool = 0, block = 0\<rparr>\<rparr>"
  have m: "EvDispatch ?a \<in> set (calls (handleSlashCommand ?ctx exampleDeps exampleAccount
             exampleSlashCommand exampleParams))"
    by (simp add: example_defs handler_defs)
  have r: "dispatchReplyWithDispatcher exampleDeps (cfg ?ctx) ?a = Inr ?res"
    by (simp add: exampleDeps_def)
  have z: "final (counts ?res) + tool (counts ?res) + block (counts ?res) = 0"
    by simp
  have e: "sc_ephemeral exampleSlashCommand = True" "textLimit ?ctx = 4000"
    by (simp_all add: example_defs)
  show ?thesis
    using m z empty_result_delivered[OF m r z] unfolding e by blast
qed

subsection \<open>The authorization flag\<close>

lemma dmBranch_value:
  "snd (dmBranch ctx deps p d l True) = Next v \<Longrightarrow> v"
  by (auto simp: dmBranch_def Let_def snd_bind_io snd_call
        split: if_splits sum.splits step.splits)

lemma dispatchStage_authorized:
  "list_all (\<lambda>ev. \<forall>a. ev = EvDispatch a \<longrightarrow> CommandAuthorized (da_ctx a))
     (fst (dispatchStage ctx deps account sc p ci d g r True cc))"
  unfolding dispatchStage_def Let_def
  by (auto intro!: list_all_bind_io list_all_call simp: buildCtxPayload_def Let_def)

lemma tryBody_authorized:
  "list_all (\<lambda>ev. \<forall>a. ev = EvDispatch a \<longrightarrow> CommandAuthorized (da_ctx a))
     (fst (tryBody ctx deps account sc p))"
  unfolding tryBody_def Let_def
  by (auto intro!: list_all_bind_io list_all_call
        list_all_mono'[OF dmBranch_calls] list_all_mono'[OF roomBranch_calls]
        dispatchStage_authorized
      dest!: dmBranch_value)

text \<open>
  Claim C9. In every run, every call of the dispatcher carries a context payload whose
  \<^verbatim>\<open>CommandAuthorized\<close> field is true: the variable starts as true, the only
  assignment to it (line 130) stores true, and line 234 copies it into the payload.
\<close>

theorem dispatched_command_authorized:
  "\<forall>a. EvDispatch a \<in> set (calls (handleSlashCommand ctx deps account slashCommand p))
        \<longrightarrow> CommandAuthorized (da_ctx a)"
proof (intro allI impI)
  fix a
  assume m: "EvDispatch a \<in> set (calls (handleSlashCommand ctx deps account slashCommand p))"
  have nb: "EvDispatch a \<notin> set (fst (catchBlock ctx deps p err))" for err
    using catchBlock_nodispatch[of ctx deps p err] by (fastforce simp: list_all_iff)
  have "EvDispatch a \<in> set (fst (tryBody ctx deps account slashCommand p))"
    using m nb by (auto simp: handle_calls split: step.splits)
  then show "CommandAuthorized (da_ctx a)"
    using tryBody_authorized[of ctx deps account slashCommand p]
    by (auto simp: list_all_iff)
qed


text \<open>
  The theorem at the example installation, for a direct message under the pairing policy
  from a sender whose name is on the static allow-list: the path through the assignment
  of line 130.
\<close>

theorem dispatched_command_authorized_witness:
  "EvDispatch
     \<lparr>da_ctx = buildCtxPayload exampleDeps exampleSlashCommand exampleParams
                 (Some (exampleChannel ''im'')) True False False ''Alice'' None
                 \<lparr>agentId = ''main'', sessionKey = ''agent:main:main'', accountId = ''default''\<rparr>
                 True,
      da_responsePrefix = None, da_skillFilter = None\<rparr>
     \<in> set (calls (handleSlashCommand
          (exampleCtx\<lparr>resolveChannelName := (\<lambda>_. Inr (Some (exampleChannel ''im''))),
                      allowFrom := [''alice'']\<rparr>)
          exampleDeps exampleAccount exampleSlashCommand exampleParams))
   \<and> CommandAuthorized (da_ctx
        \<lparr>da_ctx = buildCtxPayload exampleDeps exampleSlashCommand exampleParams
                 (Some (exampleChannel ''im'')) True False False ''Alice'' None
                 \<lparr>agentId = ''main'', sessionKey = ''agent:main:main'', accountId = ''default''\<rparr>
                 True,
         da_responsePrefix = None, da_skillFilter = None\<rparr>)"
proof -
  let ?ctx = "exampleCtx\<lparr>resolveChannelName := (\<lambda>_. Inr (Some (exampleChannel ''im''))),
                      allowFrom := [''alice'']\<rparr>"
  let ?a = "\<lparr>da_ctx = buildCtxPayload exampleDeps exampleSlashCommand exampleParams
                 (Some (exampleChannel ''im'')) True False False ''Alice'' None
                 \<lparr>agentId = ''main'', sessionKey = ''agent:main:main'', accountId = ''default''\<rparr>
                 True,
      da_responsePrefix = None, da_skillFilter = None\<rparr>"
  have m: "EvDispatch ?a \<in> set (calls (handleSlashCommand ?ctx exampleDeps exampleAccount
             exampleSlashCommand exampleParams))"
    by (simp add: example_defs handler_defs)
  show ?thesis
    using m dispatched_command_authorized[of ?ctx exampleDeps exampleAccount
        exampleSlashCommand exampleParams]
    by blast
qed

subsection \<open>Group direct messages\<close>

lemma bind_call_Inr: "bind_io (call ev (Inr v)) f = (ev # fst (f v), snd (f v))"
  by (simp add: bind_io_def call_def split: prod.splits)

lemma bind_call_Inl: "bind_io (call ev (Inl e)) f = ([ev], Throw e)"
  by (simp add: bind_io_def call_def)

lemma bind_next_io: "bind_io (next_io v) f = f v"
  by (simp add: bind_io_def next_io_def split: prod.splits)

lemma dispatchStage_group_update:
  "dispatchStage
     (ctx\<lparr>dmEnabled := x1, dmPolicy := x2, channelsConfig := x3, defaultRequireMention := x4,
          useAccessGroups := x5, groupPolicy := x6, allowFrom := x7\<rparr>)
     (deps\<lparr>upsertChannelPairingRequest := y1, normalizeAllowList := y2,
           normalizeAllowListLower := y3, allowListMatches := y4,
           resolveSlackUserAllowed := y5, resolveSlackChannelConfig := y6,
           isSlackRoomAllowedByPolicy := y7, buildPairingReply := y8\<rparr>)
     account sc p ci False True False ca None
   = dispatchStage ctx deps account sc p ci False True False ca None"
  by (simp add: dispatchStage_def buildCtxPayload_def Let_def cong: if_cong)

lemma catchBlock_group_update:
  "catchBlock
     (ctx\<lparr>dmEnabled := x1, dmPolicy := x2, channelsConfig := x3, defaultRequireMention := x4,
          useAccessGroups := x5, groupPolicy := x6, allowFrom := x7\<rparr>)
     (deps\<lparr>upsertChannelPairingRequest := y1, normalizeAllowList := y2,
           normalizeAllowListLower := y3, allowListMatches := y4,
           resolveSlackUserAllowed := y5, resolveSlackChannelConfig := y6,
           isSlackRoomAllowedByPolicy := y7, buildPairingReply := y8\<rparr>) p err
   = catchBlock ctx deps p err"
  by (simp add: catchBlock_def cong: option.case_cong)

lemma tryBody_group:
  assumes ci: "resolveChannelName ctx (channel_id (command p)) = Inr ci"
    and g: "channelTypeOf (command p) ci = Some ''mpim''"
  shows "tryBody ctx deps account sc p =
     (if \<not> truthy (trim (prompt p)) then
        bind_io (call (EvAck (Some (ephemeral ''Message required.'')))
                      (ack p (Some (ephemeral ''Message required.''))))
          (\<lambda>_. return_io)
      else
        bind_io (call (EvAck None) (ack p None))
          (\<lambda>_.
             if truthyOpt (botUserId ctx) \<and> Some (user_id (command p)) = botUserId ctx
             then return_io
             else
               bind_io (call (EvResolveChannelName (channel_id (command p))) (Inr ci))
                 (\<lambda>_. bind_io (call (EvIsChannelAllowed
                                   \<lparr>ca_channelId = channel_id (command p),
                                    ca_channelName = channelNameOf ci,
                                    ca_channelType = Some ''mpim''\<rparr>)
                                 (isChannelAllowed ctx
                                   \<lparr>ca_channelId = channel_id (command p),
                                    ca_channelName = channelNameOf ci,
                                    ca_channelType = Some ''mpim''\<rparr>))
                         (\<lambda>channelOk.
                            if \<not> channelOk then
                              bind_io (call (EvRespond (ephemeral ''This channel is not allowed.''))
                                            (respond p (ephemeral ''This channel is not allowed.'')))
                                (\<lambda>_. return_io)
                            else
                              bind_io (call (EvReadChannelAllowFromStore ''slack'')
                                            (storeAllowFromOf deps))
                                (\<lambda>_. dispatchStage ctx deps account sc p ci
                                        False True False True None)))))"
  by (simp add: tryBody_def Let_def ci g bind_call_Inr dmBranch_skip roomBranch_skip
        bind_next_io cong: if_cong)


lemma dispatchStage_group_payload:
  "list_all (\<lambda>ev. \<forall>a. ev = EvDispatch a \<longrightarrow>
        da_skillFilter a = None
        \<and> GroupSystemPrompt (da_ctx a)
            = (if truthy (channelDescriptionOf ci)
               then Some (''Channel description: '' @ channelDescriptionOf ci) else None)
        \<and> ChatType (da_ctx a) = ''group'')
     (fst (dispatchStage ctx deps account sc p ci False True False ca None))"
  unfolding dispatchStage_def Let_def
  by (auto intro!: list_all_bind_io list_all_call
        simp: buildCtxPayload_def groupSystemPromptOf_def Let_def)

lemma dispatchStage_group_reaches:
  assumes "resolveUserName ctx (user_id (command p)) = Inr sender"
    and "resolveAgentRoute deps (cfg ctx)
           \<lparr>ra_channel = ''slack'', ra_accountId = acc_accountId account,
            ra_teamId = (if truthy (teamId ctx) then Some (teamId ctx) else None),
            ra_peer_kind = ''group'', ra_peer_id = channel_id (command p)\<rparr> = Inr route"
  shows "list_ex isDispatch (fst (dispatchStage ctx deps account sc p ci False True False ca None))"
  using assms
  by (simp add: dispatchStage_def Let_def bind_call_Inr fst_bind_call)

text \<open>
  Claim C10. For a command in a group direct message (channel type \<^verbatim>\<open>mpim\<close>):
  the run does not depend on the DM switch and policy, on the channels configuration and
  its default, on access-group enforcement and the group policy, on the static
  allow-list, nor on the pairing upsert, the allow-list helpers, the channel-config
  resolver or the room policy check; every dispatch carries no skill filter, a group
  system prompt made of the channel description alone, and the chat type \<^verbatim>\<open>group\<close>;
  once the prompt is not blank, the sender is not the bot, \<^verbatim>\<open>ack\<close> has returned,
  the channel-allowed predicate has returned true and the sender lookup and the router
  have returned, the dispatcher is called. The checks that remain are applied: the
  channel-allowed predicate is the third call and is asked about the type
  \<^verbatim>\<open>mpim\<close>; when it returns false the fourth call is the ephemeral "This channel is
  not allowed." and, as whenever it does not return true, the command is not
  dispatched; and a blank prompt or a command sent by the bot itself is not dispatched.
\<close>

theorem group_dm_only_channel_allowed:
  assumes ci: "resolveChannelName ctx (channel_id (command p)) = Inr ci"
    and g: "channelTypeOf (command p) ci = Some ''mpim''"
  shows "handleSlashCommand
           (ctx\<lparr>dmEnabled := x1, dmPolicy := x2, channelsConfig := x3,
                defaultRequireMention := x4, useAccessGroups := x5, groupPolicy := x6,
                allowFrom := x7\<rparr>)
           (deps\<lparr>upsertChannelPairingRequest := y1, normalizeAllowList := y2,
                 normalizeAllowListLower := y3, allowListMatches := y4,
                 resolveSlackUserAllowed := y5, resolveSlackChannelConfig := y6,
                 isSlackRoomAllowedByPolicy := y7, buildPairingReply := y8\<rparr>)
           account slashCommand p
         = handleSlashCommand ctx deps account slashCommand p
       \<and> (\<forall>a. EvDispatch a \<in> set (calls (handleSlashCommand ctx deps account slashCommand p))
              \<longrightarrow> da_skillFilter a = None
                  \<and> GroupSystemPrompt (da_ctx a)
                      = (if truthy (channelDescriptionOf ci)
                         then Some (''Channel description: '' @ channelDescriptionOf ci)
                         else None)
                  \<and> ChatType (da_ctx a) = ''group'')
       \<and> (\<not> list_all isWhiteSpace (prompt p)
          \<and> \<not> (truthyOpt (botUserId ctx) \<and> Some (user_id (command p)) = botUserId ctx)
          \<and> ack p None = Inr ()
          \<and> isChannelAllowed ctx
               \<lparr>ca_channelId = channel_id (command p), ca_channelName = channelNameOf ci,
                ca_channelType = Some ''mpim''\<rparr> = Inr True
          \<and> resolveUserName ctx (user_id (command p)) = Inr sender
          \<and> resolveAgentRoute deps (cfg ctx)
               \<lparr>ra_channel = ''slack'', ra_accountId = acc_accountId account,
                ra_teamId = (if truthy (teamId ctx) then Some (teamId ctx) else None),
                ra_peer_kind = ''group'', ra_peer_id = channel_id (command p)\<rparr> = Inr route
          \<longrightarrow> dispatched (handleSlashCommand ctx deps account slashCommand p))
       \<and> (\<not> list_all isWhiteSpace (prompt p)
          \<and> \<not> (truthyOpt (botUserId ctx) \<and> Some (user_id (command p)) = botUserId ctx)
          \<and> ack p None = Inr ()
          \<longrightarrow> take 3 (calls (handleSlashCommand ctx deps account slashCommand p))
                = [EvAck None, EvResolveChannelName (channel_id (command p)),
                   EvIsChannelAllowed
                     \<lparr>ca_channelId = channel_id (command p), ca_channelName = channelNameOf ci,
                      ca_channelType = Some ''mpim''\<rparr>])
       \<and> (\<not> list_all isWhiteSpace (prompt p)
          \<and> \<not> (truthyOpt (botUserId ctx) \<and> Some (user_id (command p)) = botUserId ctx)
          \<and> ack p None = Inr ()
          \<and> isChannelAllowed ctx
               \<lparr>ca_channelId = channel_id (command p), ca_channelName = channelNameOf ci,
                ca_channelType = Some ''mpim''\<rparr> = Inr False
          \<longrightarrow> take 4 (calls (handleSlashCommand ctx deps account slashCommand p))
                = [EvAck None, EvResolveChannelName (channel_id (command p)),
                   EvIsChannelAllowed
                     \<lparr>ca_channelId = channel_id (command p), ca_channelName = channelNameOf ci,
                      ca_channelType = Some ''mpim''\<rparr>,
                   EvRespond notAllowedMessage])
       \<and> (isChannelAllowed ctx
               \<lparr>ca_channelId = channel_id (command p), ca_channelName = channelNameOf ci,
                ca_channelType = Some ''mpim''\<rparr> \<noteq> Inr True
          \<longrightarrow> \<not> dispatched (handleSlashCommand ctx deps account slashCommand p))
       \<and> (list_all isWhiteSpace (prompt p)
          \<or> (truthyOpt (botUserId ctx) \<and> Some (user_id (command p)) = botUserId ctx)
          \<longrightarrow> \<not> dispatched (handleSlashCommand ctx deps account slashCommand p))"
proof -
  let ?ctx' = "ctx\<lparr>dmEnabled := x1, dmPolicy := x2, channelsConfig := x3,
                defaultRequireMention := x4, useAccessGroups := x5, groupPolicy := x6,
                allowFrom := x7\<rparr>"
  let ?deps' = "deps\<lparr>upsertChannelPairingRequest := y1, normalizeAllowList := y2,
                 normalizeAllowListLower := y3, allowListMatches := y4,
                 resolveSlackUserAllowed := y5, resolveSlackChannelConfig := y6,
                 isSlackRoomAllowedByPolicy := y7, buildPairingReply := y8\<rparr>"
  let ?body = "tryBody ctx deps account slashCommand p"
  define Q where "Q = (\<lambda>ev. \<forall>a. ev = EvDispatch a \<longrightarrow>
        da_skillFilter a = None
        \<and> GroupSystemPrompt (da_ctx a)
            = (if truthy (channelDescriptionOf ci)
               then Some (''Channel description: '' @ channelDescriptionOf ci) else None)
        \<and> ChatType (da_ctx a) = ''group'')"
  have qd: "list_all Q (fst (dispatchStage ctx deps account slashCommand p ci
                               False True False True None))"
    unfolding Q_def by (rule dispatchStage_group_payload)
  have qn: "Q ev" if "\<not> isDispatch ev" for ev
    using that unfolding Q_def by auto
  have ci': "resolveChannelName ?ctx' (channel_id (command p)) = Inr ci"
    using ci by simp
  have st: "storeAllowFromOf ?deps' = storeAllowFromOf deps"
    by (simp add: storeAllowFromOf_def)
  have b: "tryBody ?ctx' ?deps' account slashCommand p = ?body"
    unfolding tryBody_group[OF ci' g] tryBody_group[OF ci g]
    by (simp add: st dispatchStage_group_update cong: if_cong)
  have 1: "handleSlashCommand ?ctx' ?deps' account slashCommand p
         = handleSlashCommand ctx deps account slashCommand p"
    unfolding handleSlashCommand_def b
    by (simp add: catchBlock_group_update cong: prod.case_cong step.case_cong)
  have q: "list_all Q (fst ?body)"
    unfolding tryBody_group[OF ci g]
    by (auto intro!: list_all_bind_io list_all_call qd qn)
  have 2: "Q (EvDispatch a)"
    if m: "EvDispatch a \<in> set (calls (handleSlashCommand ctx deps account slashCommand p))"
    for a
  proof -
    have nb: "EvDispatch a \<notin> set (fst (catchBlock ctx deps p err))" for err
      using catchBlock_nodispatch[of ctx deps p err] by (fastforce simp: list_all_iff)
    have "EvDispatch a \<in> set (fst ?body)"
      using m nb by (auto simp: handle_calls split: step.splits)
    then show ?thesis using q unfolding list_all_iff by blast
  qed
  have 3: "dispatched (handleSlashCommand ctx deps account slashCommand p)"
    if "\<not> list_all isWhiteSpace (prompt p)"
      "\<not> (truthyOpt (botUserId ctx) \<and> Some (user_id (command p)) = botUserId ctx)"
      "ack p None = Inr ()"
      "isChannelAllowed ctx
               \<lparr>ca_channelId = channel_id (command p), ca_channelName = channelNameOf ci,
                ca_channelType = Some ''mpim''\<rparr> = Inr True"
      "resolveUserName ctx (user_id (command p)) = Inr sender"
      "resolveAgentRoute deps (cfg ctx)
               \<lparr>ra_channel = ''slack'', ra_accountId = acc_accountId account,
                ra_teamId = (if truthy (teamId ctx) then Some (teamId ctx) else None),
                ra_peer_kind = ''group'', ra_peer_id = channel_id (command p)\<rparr> = Inr route"
  proof -
    have t: "truthy (trim (prompt p))" using that(1) by (simp add: truthy_def trim_empty_iff)
    have "list_ex isDispatch (fst ?body)"
      unfolding tryBody_group[OF ci g]
      using that(2) dispatchStage_group_reaches[OF that(5,6), of slashCommand ci True]
      by (simp add: t that(3,4) bind_call_Inr storeAllowFromOf_cases)
    then show ?thesis by (auto simp: dispatched_def handle_calls)
  qed
  have cbn: "list_all (\<lambda>ev. \<not> isDispatch ev) (fst (catchBlock ctx deps p err))" for err
    by (rule catchBlock_nodispatch)
  have run_nodispatch: "\<not> dispatched (handleSlashCommand ctx deps account slashCommand p)"
    if "list_all (\<lambda>ev. \<not> isDispatch ev) (fst ?body)"
    using that cbn
    by (auto simp: dispatched_def handle_calls list_ex_iff list_all_iff split: step.splits)
  have 4: "take 3 (calls (handleSlashCommand ctx deps account slashCommand p))
                = [EvAck None, EvResolveChannelName (channel_id (command p)),
                   EvIsChannelAllowed
                     \<lparr>ca_channelId = channel_id (command p), ca_channelName = channelNameOf ci,
                      ca_channelType = Some ''mpim''\<rparr>]"
    if "\<not> list_all isWhiteSpace (prompt p)"
      "\<not> (truthyOpt (botUserId ctx) \<and> Some (user_id (command p)) = botUserId ctx)"
      "ack p None = Inr ()"
  proof -
    have t: "truthy (trim (prompt p))" using that(1) by (simp add: truthy_def trim_empty_iff)
    have "take 3 (fst ?body)
            = [EvAck None, EvResolveChannelName (channel_id (command p)),
               EvIsChannelAllowed
                 \<lparr>ca_channelId = channel_id (command p), ca_channelName = channelNameOf ci,
                  ca_channelType = Some ''mpim''\<rparr>]"
      unfolding tryBody_group[OF ci g] using that(2)
      by (simp add: t that(3) bind_call_Inr fst_bind_call)
    moreover have "length (fst ?body) \<ge> 3"
      unfolding tryBody_group[OF ci g] using that(2)
      by (simp add: t that(3) bind_call_Inr fst_bind_call)
    ultimately show ?thesis by (simp add: handle_calls)
  qed
  have 5: "take 4 (calls (handleSlashCommand ctx deps account slashCommand p))
                = [EvAck None, EvResolveChannelName (channel_id (command p)),
                   EvIsChannelAllowed
                     \<lparr>ca_channelId = channel_id (command p), ca_channelName = channelNameOf ci,
                      ca_channelType = Some ''mpim''\<rparr>,
                   EvRespond notAllowedMessage]"
    if "\<not> list_all isWhiteSpace (prompt p)"
      "\<not> (truthyOpt (botUserId ctx) \<and> Some (user_id (command p)) = botUserId ctx)"
      "ack p None = Inr ()"
      "isChannelAllowed ctx
               \<lparr>ca_channelId = channel_id (command p), ca_channelName = channelNameOf ci,
                ca_channelType = Some ''mpim''\<rparr> = Inr False"
  proof -
    have t: "truthy (trim (prompt p))" using that(1) by (simp add: truthy_def trim_empty_iff)
    have "fst ?body
            = [EvAck None, EvResolveChannelName (channel_id (command p)),
               EvIsChannelAllowed
                 \<lparr>ca_channelId = channel_id (command p), ca_channelName = channelNameOf ci,
                  ca_channelType = Some ''mpim''\<rparr>,
               EvRespond notAllowedMessage]"
      unfolding tryBody_group[OF ci g] using that(2)
      by (simp add: t that(3,4) bind_call_Inr fst_bind_call notAllowedMessage_def
            split: sum.splits)
    then show ?thesis by (simp add: handle_calls)
  qed
  have 6: "\<not> dispatched (handleSlashCommand ctx deps account slashCommand p)"
    if "isChannelAllowed ctx
               \<lparr>ca_channelId = channel_id (command p), ca_channelName = channelNameOf ci,
                ca_channelType = Some ''mpim''\<rparr> \<noteq> Inr True"
  proof -
    have "list_all (\<lambda>ev. \<not> isDispatch ev) (fst ?body)"
      unfolding tryBody_group[OF ci g] using that
      by (auto intro!: list_all_bind_io list_all_call simp: snd_call split: sum.splits)
    then show ?thesis by (rule run_nodispatch)
  qed
  have 7: "\<not> dispatched (handleSlashCommand ctx deps account slashCommand p)"
    if "list_all isWhiteSpace (prompt p)
          \<or> (truthyOpt (botUserId ctx) \<and> Some (user_id (command p)) = botUserId ctx)"
  proof -
    have "list_all (\<lambda>ev. \<not> isDispatch ev) (fst ?body)"
      unfolding tryBody_group[OF ci g] using that
      by (auto intro!: list_all_bind_io list_all_call simp: truthy_def trim_empty_iff)
    then show ?thesis by (rule run_nodispatch)
  qed
  show ?thesis using 1 2[unfolded Q_def] 3 4 5 6 7 by blast
qed

text \<open>
  The theorem at the example installation, for a command in a group direct message:
  switching direct messages off, disabling both policies, dropping the channels
  configuration and replacing the helpers by functions that refuse everything leaves
  the run as it is, and the command is dispatched; and when the channel-allowed
  predicate refuses the group direct message, the fourth call is the "not allowed"
  answer and the command is not dispatched.
\<close>

theorem group_dm_only_channel_allowed_witness:
  "channelTypeOf (command exampleParams) (Some (exampleChannel ''mpim'')) = Some ''mpim''
   \<and> handleSlashCommand
        (exampleCtx\<lparr>resolveChannelName := (\<lambda>_. Inr (Some (exampleChannel ''mpim'')))\<rparr>
           \<lparr>dmEnabled := False, dmPolicy := ''disabled'', channelsConfig := None,
            defaultRequireMention := Some False, useAccessGroups := False,
            groupPolicy := ''disabled'', allowFrom := [''nobody'']\<rparr>)
        (exampleDeps
           \<lparr>upsertChannelPairingRequest := (\<lambda>_. Inl (JsError ''unused'')),
            normalizeAllowList := (\<lambda>_. []),
            normalizeAllowListLower := (\<lambda>_. []),
            allowListMatches := (\<lambda>_. False),
            resolveSlackUserAllowed := (\<lambda>_. False),
            resolveSlackChannelConfig := (\<lambda>_. None),
            isSlackRoomAllowedByPolicy := (\<lambda>_. False),
            buildPairingReply := (\<lambda>_. [])\<rparr>)
        exampleAccount exampleSlashCommand exampleParams
      = handleSlashCommand
          (exampleCtx\<lparr>resolveChannelName := (\<lambda>_. Inr (Some (exampleChannel ''mpim'')))\<rparr>)
          exampleDeps exampleAccount exampleSlashCommand exampleParams
   \<and> dispatched (handleSlashCommand
          (exampleCtx\<lparr>resolveChannelName := (\<lambda>_. Inr (Some (exampleChannel ''mpim'')))\<rparr>)
          exampleDeps exampleAccount exampleSlashCommand exampleParams)
   \<and> take 4 (calls (handleSlashCommand
          (exampleCtx\<lparr>resolveChannelName := (\<lambda>_. Inr (Some (exampleChannel ''mpim''))),
                      isChannelAllowed := (\<lambda>_. Inr False)\<rparr>)
          exampleDeps exampleAccount exampleSlashCommand exampleParams))
      = [EvAck None, EvResolveChannelName (channel_id (command exampleParams)),
         EvIsChannelAllowed
           \<lparr>ca_channelId = channel_id (command exampleParams),
            ca_channelName = channelNameOf (Some (exampleChannel ''mpim'')),
            ca_channelType = Some ''mpim''\<rparr>,
         EvRespond notAllowedMessage]
   \<and> \<not> dispatched (handleSlashCommand
          (exampleCtx\<lparr>resolveChannelName := (\<lambda>_. Inr (Some (exampleChannel ''mpim''))),
                      isChannelAllowed := (\<lambda>_. Inr False)\<rparr>)
          exampleDeps exampleAccount exampleSlashCommand exampleParams)"
proof -
  let ?ctx2 = "exampleCtx\<lparr>resolveChannelName := (\<lambda>_. Inr (Some (exampleChannel ''mpim''))),
                      isChannelAllowed := (\<lambda>_. Inr False)\<rparr>"
  let ?ctx = "exampleCtx\<lparr>resolveChannelName := (\<lambda>_. Inr (Some (exampleChannel ''mpim'')))\<rparr>"
  let ?ci = "Some (exampleChannel ''mpim'')"
  let ?sender = "Some \<lparr>ui_name = Some ''Alice''\<rparr>"
  let ?route = "\<lparr>agentId = ''main'', sessionKey = ''agent:main:main'', accountId = ''default''\<rparr>"
  have ci: "resolveChannelName ?ctx (channel_id (command exampleParams)) = Inr ?ci"
    by (simp add: exampleCtx_def)
  have g: "channelTypeOf (command exampleParams) ?ci = Some ''mpim''"
    by (simp add: channelTypeOf_def exampleChannel_def)
  have pre: "\<not> list_all isWhiteSpace (prompt exampleParams)
          \<and> \<not> (truthyOpt (botUserId ?ctx)
                \<and> Some (user_id (command exampleParams)) = botUserId ?ctx)
          \<and> ack exampleParams None = Inr ()
          \<and> isChannelAllowed ?ctx
               \<lparr>ca_channelId = channel_id (command exampleParams),
                ca_channelName = channelNameOf ?ci,
                ca_channelType = Some ''mpim''\<rparr> = Inr True
          \<and> resolveUserName ?ctx (user_id (command exampleParams)) = Inr ?sender
          \<and> resolveAgentRoute exampleDeps (cfg ?ctx)
               \<lparr>ra_channel = ''slack'', ra_accountId = acc_accountId exampleAccount,
                ra_teamId = (if truthy (teamId ?ctx) then Some (teamId ?ctx) else None),
                ra_peer_kind = ''group'', ra_peer_id = channel_id (command exampleParams)\<rparr>
              = Inr ?route"
    by (simp add: example_defs isWhiteSpace_def)
  note t = group_dm_only_channel_allowed[OF ci g,
      where ?x1.0 = False and ?x2.0 = "''disabled''" and ?x3.0 = None
        and ?x4.0 = "Some False" and ?x5.0 = False and ?x6.0 = "''disabled''"
        and ?x7.0 = "[''nobody'']"
        and ?y1.0 = "\<lambda>_. Inl (JsError ''unused'')" and ?y2.0 = "\<lambda>_. []"
        and ?y3.0 = "\<lambda>_. []" and ?y4.0 = "\<lambda>_. False" and ?y5.0 = "\<lambda>_. False"
        and ?y6.0 = "\<lambda>_. None" and ?y7.0 = "\<lambda>_. False" and ?y8.0 = "\<lambda>_. []"
        and deps = exampleDeps and account = exampleAccount
        and slashCommand = exampleSlashCommand and sender = ?sender and route = ?route]
  have d: "dispatched (handleSlashCommand ?ctx exampleDeps exampleAccount exampleSlashCommand
             exampleParams)"
    using t pre by blast
  have e: "handleSlashCommand
        (?ctx\<lparr>dmEnabled := False, dmPolicy := ''disabled'', channelsConfig := None,
            defaultRequireMention := Some False, useAccessGroups := False,
            groupPolicy := ''disabled'', allowFrom := [''nobody'']\<rparr>)
        (exampleDeps
           \<lparr>upsertChannelPairingRequest := (\<lambda>_. Inl (JsError ''unused'')),
            normalizeAllowList := (\<lambda>_. []),
            normalizeAllowListLower := (\<lambda>_. []),
            allowListMatches := (\<lambda>_. False),
            resolveSlackUserAllowed := (\<lambda>_. False),
            resolveSlackChannelConfig := (\<lambda>_. None),
            isSlackRoomAllowedByPolicy := (\<lambda>_. False),
            buildPairingReply := (\<lambda>_. [])\<rparr>)
        exampleAccount exampleSlashCommand exampleParams
      = handleSlashCommand ?ctx exampleDeps exampleAccount exampleSlashCommand exampleParams"
    using t by blast
  have ci2: "resolveChannelName ?ctx2 (channel_id (command exampleParams)) = Inr ?ci"
    by (simp add: exampleCtx_def)
  have pre2: "\<not> list_all isWhiteSpace (prompt exampleParams)
          \<and> \<not> (truthyOpt (botUserId ?ctx2)
                \<and> Some (user_id (command exampleParams)) = botUserId ?ctx2)
          \<and> ack exampleParams None = Inr ()
          \<and> isChannelAllowed ?ctx2
               \<lparr>ca_channelId = channel_id (command exampleParams),
                ca_channelName = channelNameOf ?ci,
                ca_channelType = Some ''mpim''\<rparr> = Inr False"
    by (simp add: example_defs isWhiteSpace_def)
  have ne: "isChannelAllowed ?ctx2
               \<lparr>ca_channelId = channel_id (command exampleParams),
                ca_channelName = channelNameOf ?ci,
                ca_channelType = Some ''mpim''\<rparr> \<noteq> Inr True"
    using pre2 by simp
  note t2 = group_dm_only_channel_allowed[OF ci2 g,
      where deps = exampleDeps and account = exampleAccount
        and slashCommand = exampleSlashCommand]
  have r2: "take 4 (calls (handleSlashCommand ?ctx2 exampleDeps exampleAccount
              exampleSlashCommand exampleParams))
      = [EvAck None, EvResolveChannelName (channel_id (command exampleParams)),
         EvIsChannelAllowed
           \<lparr>ca_channelId = channel_id (command exampleParams),
            ca_channelName = channelNameOf ?ci,
            ca_channelType = Some ''mpim''\<rparr>,
         EvRespond notAllowedMessage]"
    using t2 pre2 by blast
  have n2: "\<not> dispatched (handleSlashCommand ?ctx2 exampleDeps exampleAccount
              exampleSlashCommand exampleParams)"
    using t2 ne by blast
  show ?thesis using g e d r2 n2 by blast
qed

subsection \<open>The top-level handler\<close>

lemma handle_settles:
  "settles (handleSlashCommand ctx deps account slashCommand p) =
     (case snd (tryBody ctx deps account slashCommand p) of
        Throw err \<Rightarrow> (case snd (catchBlock ctx deps p err) of
                        Throw err' \<Rightarrow> Rejected err' | _ \<Rightarrow> Resolved)
      | _ \<Rightarrow> Resolved)"
  by (auto simp: handleSlashCommand_def settles_def split: prod.splits step.splits)

lemma catchBlock_ok:
  assumes "case runtime_error ctx of None \<Rightarrow> True | Some logError \<Rightarrow> \<forall>s. logError s = Inr ()"
    and "respond p failureMessage = Inr ()"
  shows "snd (catchBlock ctx deps p err) = Next ()"
    and "fst (catchBlock ctx deps p err) =
           (case runtime_error ctx of
              None \<Rightarrow> []
            | Some logError \<Rightarrow>
                [EvRuntimeError (danger deps (''slack slash handler failed: '' @ errString err))])
           @ [EvRespond failureMessage]"
  using assms
  by (auto simp: catchBlock_def fst_bind_io snd_bind_io snd_call failureMessage_def
        split: option.splits)

lemma dmBranch_nolog:
  "list_all (\<lambda>ev. \<not> isRuntimeError ev) (fst (dmBranch ctx deps p d l c))"
  unfolding dmBranch_def Let_def
  by (auto intro!: list_all_bind_io list_all_call)

lemma roomBranch_nolog:
  "list_all (\<lambda>ev. \<not> isRuntimeError ev) (fst (roomBranch ctx deps p r ci c0))"
  by (rule list_all_mono'[OF roomBranch_calls]) auto

lemma dispatchStage_nolog:
  "list_all (\<lambda>ev. \<not> isRuntimeError ev) (fst (dispatchStage ctx deps account sc p ci d g r ca cc))"
  unfolding dispatchStage_def Let_def
  by (auto intro!: list_all_bind_io list_all_call)

lemma tryBody_nolog:
  "list_all (\<lambda>ev. \<not> isRuntimeError ev) (fst (tryBody ctx deps account sc p))"
  unfolding tryBody_def Let_def
  by (auto intro!: list_all_bind_io list_all_call dmBranch_nolog roomBranch_nolog
        dispatchStage_nolog)

lemma tryBody_first_call:
  "take 1 (fst (tryBody ctx deps account sc p))
     = [EvAck (if list_all isWhiteSpace (prompt p) then Some messageRequired else None)]"
proof (cases "list_all isWhiteSpace (prompt p)")
  case True
  then show ?thesis by (simp add: tryBody_blank)
next
  case False
  then show ?thesis using tryBody_nonblank[OF False, of ctx deps account sc] by auto
qed

text \<open>
  Claim C8, as amended. Provided the fallback itself succeeds (the logger, when the
  runtime has one, returns, and \<^verbatim>\<open>respond\<close> accepts the generic failure message), the
  handler's promise resolves on every path; the first call of every invocation is
  \<^verbatim>\<open>ack\<close>; an exception thrown anywhere in the \<^verbatim>\<open>try\<close> block is handled once, by
  one call of \<^verbatim>\<open>runtime.error\<close> (when the runtime has one) followed by one
  \<^verbatim>\<open>respond\<close> with the generic ephemeral failure message; without an exception the
  fallback is not run; and the \<^verbatim>\<open>try\<close> block never calls the logger itself.
\<close>

theorem failure_caught_at_top_level:
  assumes "case runtime_error ctx of None \<Rightarrow> True | Some logError \<Rightarrow> \<forall>s. logError s = Inr ()"
    and "respond p failureMessage = Inr ()"
  shows "settles (handleSlashCommand ctx deps account slashCommand p) = Resolved
       \<and> take 1 (calls (handleSlashCommand ctx deps account slashCommand p))
           = [EvAck (if list_all isWhiteSpace (prompt p) then Some messageRequired else None)]
       \<and> calls (handleSlashCommand ctx deps account slashCommand p)
           = fst (tryBody ctx deps account slashCommand p)
             @ (case snd (tryBody ctx deps account slashCommand p) of
                  Throw err \<Rightarrow>
                    (case runtime_error ctx of
                       None \<Rightarrow> []
                     | Some logError \<Rightarrow>
                         [EvRuntimeError
                            (danger deps (''slack slash handler failed: '' @ errString err))])
                    @ [EvRespond failureMessage]
                | _ \<Rightarrow> [])
       \<and> list_all (\<lambda>ev. \<not> isRuntimeError ev) (fst (tryBody ctx deps account slashCommand p))"
proof -
  note cb = catchBlock_ok[OF assms, of deps]
  have 1: "settles (handleSlashCommand ctx deps account slashCommand p) = Resolved"
    by (simp add: handle_settles cb(1) split: step.splits)
  have 3: "calls (handleSlashCommand ctx deps account slashCommand p)
           = fst (tryBody ctx deps account slashCommand p)
             @ (case snd (tryBody ctx deps account slashCommand p) of
                  Throw err \<Rightarrow>
                    (case runtime_error ctx of
                       None \<Rightarrow> []
                     | Some logError \<Rightarrow>
                         [EvRuntimeError
                            (danger deps (''slack slash handler failed: '' @ errString err))])
                    @ [EvRespond failureMessage]
                | _ \<Rightarrow> [])"
    by (simp add: handle_calls cb(2) cong: step.case_cong)
  have ne: "fst (tryBody ctx deps account slashCommand p) \<noteq> []"
    using tryBody_first_call[of ctx deps account slashCommand p] by auto
  have 2: "take 1 (calls (handleSlashCommand ctx deps account slashCommand p))
           = [EvAck (if list_all isWhiteSpace (prompt p) then Some messageRequired else None)]"
    using ne tryBody_first_call[of ctx deps account slashCommand p]
    by (cases "fst (tryBody ctx deps account slashCommand p)") (simp_all add: handle_calls)
  show ?thesis using 1 2 3 tryBody_nolog by blast
qed

text \<open>
  The theorem at the example installation, when \<^verbatim>\<open>ack\<close> itself throws: the exception
  is logged and answered once, and the promise resolves.
\<close>

theorem failure_caught_at_top_level_witness:
  "(case runtime_error exampleCtx of None \<Rightarrow> True | Some logError \<Rightarrow> logError ''x'' = Inr ())
   \<and> respond exampleParams failureMessage = Inr ()
   \<and> snd (tryBody exampleCtx exampleDeps exampleAccount exampleSlashCommand
        (exampleParams\<lparr>ack := (\<lambda>_. Inl (JsError ''ack timed out''))\<rparr>))
      = Throw (JsError ''ack timed out'')
   \<and> settles (handleSlashCommand exampleCtx exampleDeps exampleAccount exampleSlashCommand
        (exampleParams\<lparr>ack := (\<lambda>_. Inl (JsError ''ack timed out''))\<rparr>)) = Resolved
   \<and> calls (handleSlashCommand exampleCtx exampleDeps exampleAccount exampleSlashCommand
        (exampleParams\<lparr>ack := (\<lambda>_. Inl (JsError ''ack timed out''))\<rparr>))
      = [EvAck None,
         EvRuntimeError ''slack slash handler failed: ack timed out'',
         EvRespond failureMessage]"
proof -
  let ?p = "exampleParams\<lparr>ack := (\<lambda>_. Inl (JsError ''ack timed out''))\<rparr>"
  have l: "case runtime_error exampleCtx of None \<Rightarrow> True
           | Some logError \<Rightarrow> \<forall>s. logError s = Inr ()"
    by (simp add: exampleCtx_def)
  have r: "respond ?p failureMessage = Inr ()"
    by (simp add: exampleParams_def)
  have b: "tryBody exampleCtx exampleDeps exampleAccount exampleSlashCommand ?p
             = ([EvAck None], Throw (JsError ''ack timed out''))"
    by (simp add: tryBody_def example_defs truthy_def trim_def isWhiteSpace_def
          bind_call_Inl)
  have e: "runtime_error exampleCtx = Some (\<lambda>_. Inr ())" "danger exampleDeps = (\<lambda>s. s)"
    by (simp_all add: example_defs)
  note t = failure_caught_at_top_level[OF l r, of exampleDeps exampleAccount exampleSlashCommand]
  have c: "calls (handleSlashCommand exampleCtx exampleDeps exampleAccount exampleSlashCommand ?p)
      = [EvAck None,
         EvRuntimeError ''slack slash handler failed: ack timed out'',
         EvRespond failureMessage]"
    using t by (simp add: b e)
  have s: "settles (handleSlashCommand exampleCtx exampleDeps exampleAccount exampleSlashCommand ?p)
      = Resolved"
    using t by blast
  have l': "case runtime_error exampleCtx of None \<Rightarrow> True
           | Some logError \<Rightarrow> logError ''x'' = Inr ()"
    by (simp add: exampleCtx_def)
  have r': "respond exampleParams failureMessage = Inr ()"
    by (simp add: exampleParams_def)
  show ?thesis using l' r' b c s by simp
qed

text \<open>
  Claim C8 as stated fails in two places. The \<^verbatim>\<open>catch\<close> block awaits
  \<^verbatim>\<open>respond\<close> unprotected, so when \<^verbatim>\<open>respond\<close> rejects there as well, the handler's
  promise rejects: in the example installation with a \<^verbatim>\<open>respond\<close> that always fails,
  the rejection of the "not allowed" answer is caught and the rejection of the generic
  answer leaves the handler. And the log call is optional (\<^verbatim>\<open>runtime.error?.\<close>): with
  a runtime that has no \<^verbatim>\<open>error\<close> function, a caught exception is not logged.
\<close>

theorem failure_caught_at_top_level_counterexample:
  "settles (handleSlashCommand exampleCtx exampleDeps exampleAccount exampleSlashCommand
      (exampleParams\<lparr>respond := (\<lambda>_. Inl (JsError ''expired_url''))\<rparr>))
     = Rejected (JsError ''expired_url'')
   \<and> calls (handleSlashCommand exampleCtx exampleDeps exampleAccount exampleSlashCommand
      (exampleParams\<lparr>respond := (\<lambda>_. Inl (JsError ''expired_url''))\<rparr>))
     = [EvAck None, EvResolveChannelName ''C1'',
        EvIsChannelAllowed \<lparr>ca_channelId = ''C1'', ca_channelName = Some ''general'',
                            ca_channelType = Some ''channel''\<rparr>,
        EvReadChannelAllowFromStore ''slack'',
        EvRespond notAllowedMessage,
        EvRuntimeError ''slack slash handler failed: expired_url'',
        EvRespond failureMessage]
   \<and> calls (handleSlashCommand (exampleCtx\<lparr>runtime_error := None\<rparr>) exampleDeps exampleAccount
        exampleSlashCommand (exampleParams\<lparr>ack := (\<lambda>_. Inl (JsError ''ack timed out''))\<rparr>))
     = [EvAck None, EvRespond failureMessage]"
  by (simp add: example_defs handler_defs)

subsection \<open>The channel config resolver\<close>

text \<open>
  Claim C4. For every channel id and optional channel name, when the channels mapping
  has no entry under the id, none under the name and none under the wildcard key, and
  \<^verbatim>\<open>defaultRequireMention\<close> is not given, the resolver returns
  \<^verbatim>\<open>{allowed: true, requireMention: true}\<close> with no optional field set.
\<close>

theorem resolve_defaults_without_entry:
  assumes "map_of channels channelId = None"
    and "case channelName of None \<Rightarrow> True | Some n \<Rightarrow> map_of channels n = None"
    and "map_of channels ''*'' = None"
  shows "resolveSlackChannelConfig_spec
           \<lparr>rc_channelId = channelId, rc_channelName = channelName,
            rc_channels = Some channels, rc_defaultRequireMention = None\<rparr>
         = \<lparr>allowed = True, requireMention = True, users = None, systemPrompt = None,
            skills = None\<rparr>"
  using assms
  by (simp add: resolveSlackChannelConfig_spec_def lookupChannelEntry_def
        split: option.splits)

text \<open>
  The theorem on the input of the test "defaults defaultRequireMention to true when not
  provided" (\<^verbatim>\<open>channel-config.test.ts\<close>, lines 15-21), and on a mapping that
  configures another channel only.
\<close>

theorem resolve_defaults_without_entry_witness:
  "map_of ([] :: (string \<times> channel_config) list) ''C1'' = None
   \<and> map_of ([] :: (string \<times> channel_config) list) ''*'' = None
   \<and> resolveSlackChannelConfig_spec
        \<lparr>rc_channelId = ''C1'', rc_channelName = None,
         rc_channels = Some [], rc_defaultRequireMention = None\<rparr>
      = \<lparr>allowed = True, requireMention = True, users = None, systemPrompt = None,
         skills = None\<rparr>
   \<and> resolveSlackChannelConfig_spec
        \<lparr>rc_channelId = ''C1'', rc_channelName = Some ''general'',
         rc_channels = Some [(''C2'', \<lparr>cc_requireMention = Some False, cc_allowed = Some False,
                                      cc_users = None, cc_systemPrompt = None,
                                      cc_skills = None\<rparr>)],
         rc_defaultRequireMention = None\<rparr>
      = \<lparr>allowed = True, requireMention = True, users = None, systemPrompt = None,
         skills = None\<rparr>"
proof -
  let ?cs = "[(''C2'', \<lparr>cc_requireMention = Some False, cc_allowed = Some False,
                        cc_users = None, cc_systemPrompt = None, cc_skills = None\<rparr>)]"
  have a: "map_of ([] :: (string \<times> channel_config) list) ''C1'' = None"
    "case (None :: string option) of None \<Rightarrow> True
       | Some n \<Rightarrow> map_of ([] :: (string \<times> channel_config) list) n = None"
    "map_of ([] :: (string \<times> channel_config) list) ''*'' = None"
    by simp_all
  have b: "map_of ?cs ''C1'' = None"
    "case Some ''general'' of None \<Rightarrow> True | Some n \<Rightarrow> map_of ?cs n = None"
    "map_of ?cs ''*'' = None"
    by simp_all
  show ?thesis
    using resolve_defaults_without_entry[OF a] resolve_defaults_without_entry[OF b]
    by simp
qed

subsection \<open>The allow-list store\<close>

lemma read_update_blocks:
  "dmBranch ctx (deps\<lparr>readChannelAllowFromStore := f\<rparr>) p d l c = dmBranch ctx deps p d l c"
  "roomBranch ctx (deps\<lparr>readChannelAllowFromStore := f\<rparr>) p r ci c0 = roomBranch ctx deps p r ci c0"
  "dispatchStage ctx (deps\<lparr>readChannelAllowFromStore := f\<rparr>) account sc p ci d g r ca cc
     = dispatchStage ctx deps account sc p ci d g r ca cc"
  "catchBlock ctx (deps\<lparr>readChannelAllowFromStore := f\<rparr>) p err = catchBlock ctx deps p err"
  "effectiveAllowFromOf ctx (deps\<lparr>readChannelAllowFromStore := f\<rparr>) xs
     = effectiveAllowFromOf ctx deps xs"
  by (simp_all add: dmBranch_def roomBranch_def dispatchStage_def catchBlock_def
        effectiveAllowFromOf_def buildCtxPayload_def Let_def
        cong: if_cong option.case_cong)

lemma fst_bind_io_stops: "(\<And>v. snd m \<noteq> Next v) \<Longrightarrow> fst (bind_io m f) = fst m"
  by (cases "snd m") (auto simp: fst_bind_io)

text \<open>The body of the \<^verbatim>\<open>try\<close> block once the store has been read.\<close>

lemma tryBody_after_store:
  assumes "\<not> list_all isWhiteSpace (prompt p)"
    and "\<not> (truthyOpt (botUserId ctx) \<and> Some (user_id (command p)) = botUserId ctx)"
    and "ack p None = Inr ()"
    and "resolveChannelName ctx (channel_id (command p)) = Inr ci"
    and "isChannelAllowed ctx
           \<lparr>ca_channelId = channel_id (command p), ca_channelName = channelNameOf ci,
            ca_channelType = channelTypeOf (command p) ci\<rparr> = Inr True"
    and "storeAllowFromOf deps = Inr st"
  shows "tryBody ctx deps account sc p =
     ([EvAck None, EvResolveChannelName (channel_id (command p)),
       EvIsChannelAllowed
         \<lparr>ca_channelId = channel_id (command p), ca_channelName = channelNameOf ci,
          ca_channelType = channelTypeOf (command p) ci\<rparr>,
       EvReadChannelAllowFromStore ''slack'']
      @ fst (bind_io (dmBranch ctx deps p (channelTypeOf (command p) ci = Some ''im'')
                        (normalizeAllowListLower deps (effectiveAllowFromOf ctx deps st)) True)
               (\<lambda>commandAuthorized.
                  bind_io (roomBranch ctx deps p
                             (channelTypeOf (command p) ci = Some ''channel''
                              \<or> channelTypeOf (command p) ci = Some ''group'') ci None)
                    (\<lambda>channelConfig.
                       dispatchStage ctx deps account sc p ci
                         (channelTypeOf (command p) ci = Some ''im'')
                         (channelTypeOf (command p) ci = Some ''mpim'')
                         (channelTypeOf (command p) ci = Some ''channel''
                          \<or> channelTypeOf (command p) ci = Some ''group'')
                         commandAuthorized channelConfig))),
      snd (bind_io (dmBranch ctx deps p (channelTypeOf (command p) ci = Some ''im'')
                        (normalizeAllowListLower deps (effectiveAllowFromOf ctx deps st)) True)
               (\<lambda>commandAuthorized.
                  bind_io (roomBranch ctx deps p
                             (channelTypeOf (command p) ci = Some ''channel''
                              \<or> channelTypeOf (command p) ci = Some ''group'') ci None)
                    (\<lambda>channelConfig.
                       dispatchStage ctx deps account sc p ci
                         (channelTypeOf (command p) ci = Some ''im'')
                         (channelTypeOf (command p) ci = Some ''mpim'')
                         (channelTypeOf (command p) ci = Some ''channel''
                          \<or> channelTypeOf (command p) ci = Some ''group'')
                         commandAuthorized channelConfig))))"
proof -
  have t: "truthy (trim (prompt p))" using assms(1) by (simp add: truthy_def trim_empty_iff)
  show ?thesis
    using assms(2)
    by (simp add: tryBody_def Let_def t assms(3-6) bind_call_Inr)
qed

lemma dispatchStage_first:
  "\<exists>rest. fst (dispatchStage ctx deps account sc p ci d g r ca cc)
     = EvResolveUserName (user_id (command p)) # rest"
  by (simp add: dispatchStage_def fst_bind_call)

lemma roomBranch_cases:
  "fst (roomBranch ctx deps p r ci c0) = [EvRespond notAllowedMessage]
   \<or> (fst (roomBranch ctx deps p r ci c0) = []
       \<and> (\<exists>cc. snd (roomBranch ctx deps p r ci c0) = Next cc))"
  by (auto simp: roomBranch_def Let_def fst_bind_io snd_bind_io snd_call notAllowedMessage_def
        split: sum.splits step.splits)

lemma dmBranch_cases:
  "(\<exists>rest. fst (dmBranch ctx deps p d l c) = EvRespond (ephemeral ''Slack DMs are disabled.'') # rest)
   \<or> (\<exists>rest. fst (dmBranch ctx deps p d l c) = EvResolveUserName (user_id (command p)) # rest)
   \<or> (fst (dmBranch ctx deps p d l c) = [] \<and> snd (dmBranch ctx deps p d l c) = Next c
       \<and> (d \<longrightarrow> dmPolicy ctx = ''open''))"
  by (auto simp: dmBranch_def Let_def fst_bind_call next_io_def)

lemma bind_io_passes: "fst m = [] \<Longrightarrow> snd m = Next v \<Longrightarrow> bind_io m f = f v"
  by (cases m) (auto simp: bind_io_def split: prod.splits)

lemma after_store_first:
  "\<exists>ev rest.
     fst (bind_io (dmBranch ctx deps p d l c)
            (\<lambda>ca. bind_io (roomBranch ctx deps p r ci c0)
                     (\<lambda>cc. dispatchStage ctx deps account sc p ci d g r ca cc)))
       = ev # rest
     \<and> (ev = EvResolveUserName (user_id (command p))
        \<or> ev = EvRespond (ephemeral ''Slack DMs are disabled.'')
        \<or> ev = EvRespond notAllowedMessage)"
proof -
  let ?dm = "dmBranch ctx deps p d l c"
  let ?room = "roomBranch ctx deps p r ci c0"
  consider
      (off) rest where "fst ?dm = EvRespond (ephemeral ''Slack DMs are disabled.'') # rest"
    | (name) rest where "fst ?dm = EvResolveUserName (user_id (command p)) # rest"
    | (pass) "fst ?dm = []" "snd ?dm = Next c"
    using dmBranch_cases[of ctx deps p d l c] by blast
  then show ?thesis
  proof cases
    case off
    then show ?thesis by (simp add: fst_bind_io)
  next
    case name
    then show ?thesis by (simp add: fst_bind_io)
  next
    case pass
    note p1 = bind_io_passes[OF pass]
    consider (refused) "fst ?room = [EvRespond notAllowedMessage]"
      | (through) cc where "fst ?room = []" "snd ?room = Next cc"
      using roomBranch_cases[of ctx deps p r ci c0] by blast
    then show ?thesis
    proof cases
      case refused
      then show ?thesis by (simp add: p1 fst_bind_io)
    next
      case through
      obtain rest where "fst (dispatchStage ctx deps account sc p ci d g r c cc)
                           = EvResolveUserName (user_id (command p)) # rest"
        using dispatchStage_first by blast
      then show ?thesis by (simp add: p1 bind_io_passes[OF through])
    qed
  qed
qed

lemma dmBranch_decides:
  assumes "dmEnabled ctx" and "dmPolicy ctx \<noteq> ''disabled''" and "dmPolicy ctx \<noteq> ''open''"
    and "resolveUserName ctx (user_id (command p)) = Inr sender"
  shows "allowListMatches deps
           \<lparr>al_allowList = l, al_id = user_id (command p),
            al_name = (case sender of None \<Rightarrow> None | Some s \<Rightarrow> ui_name s)\<rparr>
         \<Longrightarrow> dmBranch ctx deps p True l c = ([EvResolveUserName (user_id (command p))], Next True)"
    and "\<not> allowListMatches deps
           \<lparr>al_allowList = l, al_id = user_id (command p),
            al_name = (case sender of None \<Rightarrow> None | Some s \<Rightarrow> ui_name s)\<rparr>
         \<Longrightarrow> take 2 (fst (dmBranch ctx deps p True l c))
               = [EvResolveUserName (user_id (command p)),
                  if dmPolicy ctx = ''pairing''
                  then EvUpsertChannelPairingRequest
                         \<lparr>pr_channel = ''slack'', pr_id = user_id (command p),
                          pr_meta_name = (case sender of None \<Rightarrow> None | Some s \<Rightarrow> ui_name s)\<rparr>
                  else EvRespond (ephemeral ''You are not authorized to use this command.'')]
             \<and> snd (dmBranch ctx deps p True l c) \<noteq> Next v"
  using assms
  by (auto simp: dmBranch_def Let_def bind_call_Inr fst_bind_call snd_bind_call next_io_def
        snd_bind_io snd_call split: sum.splits step.splits)

lemma dispatchStage_dm_reaches:
  assumes "resolveUserName ctx (user_id (command p)) = Inr sender"
    and "resolveAgentRoute deps (cfg ctx)
           \<lparr>ra_channel = ''slack'', ra_accountId = acc_accountId account,
            ra_teamId = (if truthy (teamId ctx) then Some (teamId ctx) else None),
            ra_peer_kind = ''dm'', ra_peer_id = user_id (command p)\<rparr> = Inr route"
  shows "list_ex isDispatch (fst (dispatchStage ctx deps account sc p ci True False False ca cc))"
  using assms
  by (simp add: dispatchStage_def Let_def bind_call_Inr fst_bind_call)

text \<open>
  Claim C6. When the read of the allow-list store fails, the handler goes on with the
  empty list. The failed read yields the value \<^verbatim>\<open>[]\<close>, the effective allow-list is the
  normalised static list \<^verbatim>\<open>ctx.allowFrom\<close>, and the whole run is the run the handler
  makes when the store answers with the empty list. Once the prompt is not blank, the
  sender is not the bot, \<^verbatim>\<open>ack\<close> and the channel lookup have returned and the channel
  is allowed, the store is read as the fourth call and the handler proceeds: its next
  call is the sender lookup or the answer of a policy branch, not the fallback of the
  \<^verbatim>\<open>catch\<close> block. For a direct message under a restrictive policy the authorization
  decision is then taken on the static list alone: a sender it matches is dispatched
  (once the router returns), a sender it does not match is never dispatched and gets
  the pairing upsert or the "not authorized" answer.
\<close>

theorem store_read_failure_degrades:
  assumes rd: "readChannelAllowFromStore deps ''slack'' = Inl e"
  shows "storeAllowFromOf deps = Inr []
       \<and> effectiveAllowFromOf ctx deps [] = normalizeAllowList deps (allowFrom ctx)
       \<and> handleSlashCommand ctx deps account slashCommand p
           = handleSlashCommand ctx (deps\<lparr>readChannelAllowFromStore := (\<lambda>_. Inr [])\<rparr>)
               account slashCommand p
       \<and> (\<not> list_all isWhiteSpace (prompt p)
          \<and> \<not> (truthyOpt (botUserId ctx) \<and> Some (user_id (command p)) = botUserId ctx)
          \<and> ack p None = Inr ()
          \<and> resolveChannelName ctx (channel_id (command p)) = Inr ci
          \<and> isChannelAllowed ctx
               \<lparr>ca_channelId = channel_id (command p), ca_channelName = channelNameOf ci,
                ca_channelType = channelTypeOf (command p) ci\<rparr> = Inr True
          \<longrightarrow> take 4 (calls (handleSlashCommand ctx deps account slashCommand p)) = [EvAck None, EvResolveChannelName (channel_id (command p)),
                     EvIsChannelAllowed
                       \<lparr>ca_channelId = channel_id (command p),
                        ca_channelName = channelNameOf ci,
                        ca_channelType = channelTypeOf (command p) ci\<rparr>,
                     EvReadChannelAllowFromStore ''slack'']
              \<and> (\<exists>ev rest. drop 4 (calls (handleSlashCommand ctx deps account slashCommand p)) = ev # rest
                   \<and> (ev = EvResolveUserName (user_id (command p))
                      \<or> ev = EvRespond (ephemeral ''Slack DMs are disabled.'')
                      \<or> ev = EvRespond notAllowedMessage)))
       \<and> (\<not> list_all isWhiteSpace (prompt p)
          \<and> \<not> (truthyOpt (botUserId ctx) \<and> Some (user_id (command p)) = botUserId ctx)
          \<and> ack p None = Inr ()
          \<and> resolveChannelName ctx (channel_id (command p)) = Inr ci
          \<and> isChannelAllowed ctx
               \<lparr>ca_channelId = channel_id (command p), ca_channelName = channelNameOf ci,
                ca_channelType = channelTypeOf (command p) ci\<rparr> = Inr True
          \<and> channelTypeOf (command p) ci = Some ''im''
          \<and> dmEnabled ctx \<and> dmPolicy ctx \<noteq> ''disabled'' \<and> dmPolicy ctx \<noteq> ''open''
          \<and> resolveUserName ctx (user_id (command p)) = Inr sender
          \<longrightarrow> (if allowListMatches deps
                    \<lparr>al_allowList = normalizeAllowListLower deps
                                      (normalizeAllowList deps (allowFrom ctx)),
                     al_id = user_id (command p),
                     al_name = (case sender of None \<Rightarrow> None | Some s \<Rightarrow> ui_name s)\<rparr>
               then (resolveAgentRoute deps (cfg ctx)
                      \<lparr>ra_channel = ''slack'', ra_accountId = acc_accountId account,
                       ra_teamId = (if truthy (teamId ctx) then Some (teamId ctx) else None),
                       ra_peer_kind = ''dm'', ra_peer_id = user_id (command p)\<rparr> = Inr route
                     \<longrightarrow> dispatched (handleSlashCommand ctx deps account slashCommand p))
               else \<not> dispatched (handleSlashCommand ctx deps account slashCommand p)
                    \<and> take 2 (drop 4 (calls (handleSlashCommand ctx deps account slashCommand p)))
                      = [EvResolveUserName (user_id (command p)),
                         if dmPolicy ctx = ''pairing''
                         then EvUpsertChannelPairingRequest
                                \<lparr>pr_channel = ''slack'', pr_id = user_id (command p),
                                 pr_meta_name =
                                   (case sender of None \<Rightarrow> None | Some s \<Rightarrow> ui_name s)\<rparr>
                         else EvRespond
                                (ephemeral ''You are not authorized to use this command.'')]))"
proof -
  let ?run = "handleSlashCommand ctx deps account slashCommand p"
  let ?body = "tryBody ctx deps account slashCommand p"
  let ?l = "normalizeAllowListLower deps (effectiveAllowFromOf ctx deps [])"
  let ?isDm = "channelTypeOf (command p) ci = Some ''im''"
  let ?isRoom = "channelTypeOf (command p) ci = Some ''channel''
                 \<or> channelTypeOf (command p) ci = Some ''group''"
  let ?isGroup = "channelTypeOf (command p) ci = Some ''mpim''"
  let ?rest = "bind_io (dmBranch ctx deps p ?isDm ?l True)
                 (\<lambda>ca. bind_io (roomBranch ctx deps p ?isRoom ci None)
                          (\<lambda>cc. dispatchStage ctx deps account slashCommand p ci
                                   ?isDm ?isGroup ?isRoom ca cc))"
  have s: "storeAllowFromOf deps = Inr []"
    using rd by (simp add: storeAllowFromOf_def catchDefault_def)
  have s': "storeAllowFromOf (deps\<lparr>readChannelAllowFromStore := (\<lambda>_. Inr [])\<rparr>) = Inr []"
    by (simp add: storeAllowFromOf_def catchDefault_def)
  have el: "effectiveAllowFromOf ctx deps [] = normalizeAllowList deps (allowFrom ctx)"
    by (simp add: effectiveAllowFromOf_def)
  have b: "tryBody ctx (deps\<lparr>readChannelAllowFromStore := (\<lambda>_. Inr [])\<rparr>) account slashCommand p
             = ?body"
    by (simp add: tryBody_def s s' read_update_blocks Let_def cong: if_cong option.case_cong)
  have 3: "?run = handleSlashCommand ctx (deps\<lparr>readChannelAllowFromStore := (\<lambda>_. Inr [])\<rparr>)
               account slashCommand p"
    by (simp add: handleSlashCommand_def b read_update_blocks
          cong: prod.case_cong step.case_cong)
  have cbn: "list_all (\<lambda>ev. \<not> isDispatch ev) (fst (catchBlock ctx deps p err))" for err
    by (rule catchBlock_nodispatch)
  have shape: "fst ?body = [EvAck None, EvResolveChannelName (channel_id (command p)),
                     EvIsChannelAllowed
                       \<lparr>ca_channelId = channel_id (command p),
                        ca_channelName = channelNameOf ci,
                        ca_channelType = channelTypeOf (command p) ci\<rparr>,
                     EvReadChannelAllowFromStore ''slack''] @ fst ?rest" "snd ?body = snd ?rest"
    if r: "\<not> list_all isWhiteSpace (prompt p)
          \<and> \<not> (truthyOpt (botUserId ctx) \<and> Some (user_id (command p)) = botUserId ctx)
          \<and> ack p None = Inr ()
          \<and> resolveChannelName ctx (channel_id (command p)) = Inr ci
          \<and> isChannelAllowed ctx
               \<lparr>ca_channelId = channel_id (command p), ca_channelName = channelNameOf ci,
                ca_channelType = channelTypeOf (command p) ci\<rparr> = Inr True"
    using tryBody_after_store[of p ctx ci deps "[]" account slashCommand] r s by simp_all
  have 4: "take 4 (calls ?run) = [EvAck None, EvResolveChannelName (channel_id (command p)),
                     EvIsChannelAllowed
                       \<lparr>ca_channelId = channel_id (command p),
                        ca_channelName = channelNameOf ci,
                        ca_channelType = channelTypeOf (command p) ci\<rparr>,
                     EvReadChannelAllowFromStore ''slack'']
              \<and> (\<exists>ev rest. drop 4 (calls ?run) = ev # rest
                   \<and> (ev = EvResolveUserName (user_id (command p))
                      \<or> ev = EvRespond (ephemeral ''Slack DMs are disabled.'')
                      \<or> ev = EvRespond notAllowedMessage))"
    if r: "\<not> list_all isWhiteSpace (prompt p)
          \<and> \<not> (truthyOpt (botUserId ctx) \<and> Some (user_id (command p)) = botUserId ctx)
          \<and> ack p None = Inr ()
          \<and> resolveChannelName ctx (channel_id (command p)) = Inr ci
          \<and> isChannelAllowed ctx
               \<lparr>ca_channelId = channel_id (command p), ca_channelName = channelNameOf ci,
                ca_channelType = channelTypeOf (command p) ci\<rparr> = Inr True"
  proof -
    obtain ev rest where f: "fst ?rest = ev # rest"
      and k: "ev = EvResolveUserName (user_id (command p))
                \<or> ev = EvRespond (ephemeral ''Slack DMs are disabled.'')
                \<or> ev = EvRespond notAllowedMessage"
      using after_store_first[of ctx deps p ?isDm ?l True ?isRoom ci None account slashCommand
          ?isGroup] by blast
    show ?thesis using k by (simp add: handle_calls shape(1)[OF r] f)
  qed
  have 5: "dispatched ?run"
    if r: "\<not> list_all isWhiteSpace (prompt p)
          \<and> \<not> (truthyOpt (botUserId ctx) \<and> Some (user_id (command p)) = botUserId ctx)
          \<and> ack p None = Inr ()
          \<and> resolveChannelName ctx (channel_id (command p)) = Inr ci
          \<and> isChannelAllowed ctx
               \<lparr>ca_channelId = channel_id (command p), ca_channelName = channelNameOf ci,
                ca_channelType = channelTypeOf (command p) ci\<rparr> = Inr True" and d: "channelTypeOf (command p) ci = Some ''im''
          \<and> dmEnabled ctx \<and> dmPolicy ctx \<noteq> ''disabled'' \<and> dmPolicy ctx \<noteq> ''open''
          \<and> resolveUserName ctx (user_id (command p)) = Inr sender"
      and m: "allowListMatches deps
                    \<lparr>al_allowList = normalizeAllowListLower deps
                                      (normalizeAllowList deps (allowFrom ctx)),
                     al_id = user_id (command p),
                     al_name = (case sender of None \<Rightarrow> None | Some s \<Rightarrow> ui_name s)\<rparr>" and rt: "resolveAgentRoute deps (cfg ctx)
                      \<lparr>ra_channel = ''slack'', ra_accountId = acc_accountId account,
                       ra_teamId = (if truthy (teamId ctx) then Some (teamId ctx) else None),
                       ra_peer_kind = ''dm'', ra_peer_id = user_id (command p)\<rparr> = Inr route"
  proof -
    have nr: "?isRoom = False" "?isGroup = False" "?isDm = True" using d by simp_all
    have dm: "dmBranch ctx deps p True ?l True
                = ([EvResolveUserName (user_id (command p))], Next True)"
      using dmBranch_decides(1)[of ctx p sender deps ?l True] d m by (simp add: el)
    have "list_ex isDispatch (fst ?rest)"
      unfolding nr
      using dispatchStage_dm_reaches[of ctx p sender deps account route slashCommand ci True None]
        d rt
      by (simp add: dm fst_bind_io roomBranch_skip bind_next_io)
    then show ?thesis by (simp add: dispatched_def handle_calls shape(1)[OF r])
  qed
  have 6: "\<not> dispatched ?run \<and> take 2 (drop 4 (calls ?run)) = [EvResolveUserName (user_id (command p)),
                         if dmPolicy ctx = ''pairing''
                         then EvUpsertChannelPairingRequest
                                \<lparr>pr_channel = ''slack'', pr_id = user_id (command p),
                                 pr_meta_name =
                                   (case sender of None \<Rightarrow> None | Some s \<Rightarrow> ui_name s)\<rparr>
                         else EvRespond
                                (ephemeral ''You are not authorized to use this command.'')]"
    if r: "\<not> list_all isWhiteSpace (prompt p)
          \<and> \<not> (truthyOpt (botUserId ctx) \<and> Some (user_id (command p)) = botUserId ctx)
          \<and> ack p None = Inr ()
          \<and> resolveChannelName ctx (channel_id (command p)) = Inr ci
          \<and> isChannelAllowed ctx
               \<lparr>ca_channelId = channel_id (command p), ca_channelName = channelNameOf ci,
                ca_channelType = channelTypeOf (command p) ci\<rparr> = Inr True" and d: "channelTypeOf (command p) ci = Some ''im''
          \<and> dmEnabled ctx \<and> dmPolicy ctx \<noteq> ''disabled'' \<and> dmPolicy ctx \<noteq> ''open''
          \<and> resolveUserName ctx (user_id (command p)) = Inr sender"
      and m: "\<not> allowListMatches deps
                    \<lparr>al_allowList = normalizeAllowListLower deps
                                      (normalizeAllowList deps (allowFrom ctx)),
                     al_id = user_id (command p),
                     al_name = (case sender of None \<Rightarrow> None | Some s \<Rightarrow> ui_name s)\<rparr>"
  proof -
    have nr: "?isDm = True" using d by simp
    note dd = dmBranch_decides(2)[of ctx p sender deps ?l True] 
    have t2: "take 2 (fst (dmBranch ctx deps p True ?l True)) = [EvResolveUserName (user_id (command p)),
                         if dmPolicy ctx = ''pairing''
                         then EvUpsertChannelPairingRequest
                                \<lparr>pr_channel = ''slack'', pr_id = user_id (command p),
                                 pr_meta_name =
                                   (case sender of None \<Rightarrow> None | Some s \<Rightarrow> ui_name s)\<rparr>
                         else EvRespond
                                (ephemeral ''You are not authorized to use this command.'')]"
      and st: "snd (dmBranch ctx deps p True ?l True) \<noteq> Next v" for v
      using dd d m by (simp_all add: el)
    have rs: "fst ?rest = fst (dmBranch ctx deps p True ?l True)"
      unfolding nr using st by (rule fst_bind_io_stops)
    have len: "2 \<le> length (fst (dmBranch ctx deps p True ?l True))"
    proof (rule ccontr)
      assume "\<not> 2 \<le> length (fst (dmBranch ctx deps p True ?l True))"
      then have "length (take 2 (fst (dmBranch ctx deps p True ?l True))) < 2" by simp
      then show False by (simp add: t2)
    qed
    have nd: "list_all (\<lambda>ev. \<not> isDispatch ev) (fst ?body)"
      by (simp add: shape(1)[OF r] rs dmBranch_nodispatch)
    have 1: "\<not> dispatched ?run"
      using nd cbn
      by (auto simp: dispatched_def handle_calls list_ex_iff list_all_iff split: step.splits)
    have 2: "take 2 (drop 4 (calls ?run)) = [EvResolveUserName (user_id (command p)),
                         if dmPolicy ctx = ''pairing''
                         then EvUpsertChannelPairingRequest
                                \<lparr>pr_channel = ''slack'', pr_id = user_id (command p),
                                 pr_meta_name =
                                   (case sender of None \<Rightarrow> None | Some s \<Rightarrow> ui_name s)\<rparr>
                         else EvRespond
                                (ephemeral ''You are not authorized to use this command.'')]"
      using len t2 by (simp add: handle_calls shape(1)[OF r] rs)
    show ?thesis using 1 2 by blast
  qed
  have 56: "if allowListMatches deps
                    \<lparr>al_allowList = normalizeAllowListLower deps
                                      (normalizeAllowList deps (allowFrom ctx)),
                     al_id = user_id (command p),
                     al_name = (case sender of None \<Rightarrow> None | Some s \<Rightarrow> ui_name s)\<rparr>
            then (resolveAgentRoute deps (cfg ctx)
                      \<lparr>ra_channel = ''slack'', ra_accountId = acc_accountId account,
                       ra_teamId = (if truthy (teamId ctx) then Some (teamId ctx) else None),
                       ra_peer_kind = ''dm'', ra_peer_id = user_id (command p)\<rparr> = Inr route
                  \<longrightarrow> dispatched ?run)
            else \<not> dispatched ?run \<and> take 2 (drop 4 (calls ?run)) = [EvResolveUserName (user_id (command p)),
                         if dmPolicy ctx = ''pairing''
                         then EvUpsertChannelPairingRequest
                                \<lparr>pr_channel = ''slack'', pr_id = user_id (command p),
                                 pr_meta_name =
                                   (case sender of None \<Rightarrow> None | Some s \<Rightarrow> ui_name s)\<rparr>
                         else EvRespond
                                (ephemeral ''You are not authorized to use this command.'')]"
    if r: "\<not> list_all isWhiteSpace (prompt p)
          \<and> \<not> (truthyOpt (botUserId ctx) \<and> Some (user_id (command p)) = botUserId ctx)
          \<and> ack p None = Inr ()
          \<and> resolveChannelName ctx (channel_id (command p)) = Inr ci
          \<and> isChannelAllowed ctx
               \<lparr>ca_channelId = channel_id (command p), ca_channelName = channelNameOf ci,
                ca_channelType = channelTypeOf (command p) ci\<rparr> = Inr True" and d: "channelTypeOf (command p) ci = Some ''im''
          \<and> dmEnabled ctx \<and> dmPolicy ctx \<noteq> ''disabled'' \<and> dmPolicy ctx \<noteq> ''open''
          \<and> resolveUserName ctx (user_id (command p)) = Inr sender"
  proof (cases "allowListMatches deps
                    \<lparr>al_allowList = normalizeAllowListLower deps
                                      (normalizeAllowList deps (allowFrom ctx)),
                     al_id = user_id (command p),
                     al_name = (case sender of None \<Rightarrow> None | Some s \<Rightarrow> ui_name s)\<rparr>")
    case True
    then show ?thesis using 5[OF r d] by simp
  next
    case False
    then show ?thesis using 6[OF r d] by simp
  qed
  from s el 3 4 56 show ?thesis by blast
qed

text \<open>
  The theorem at the example installation, for direct messages with a store whose read
  is rejected: under the pairing policy a sender whose name is on the static allow-list
  is dispatched, and under an allow-list policy a sender who is not on it gets the
  "not authorized" answer.
\<close>

theorem store_read_failure_degrades_witness:
  "readChannelAllowFromStore
       (exampleDeps\<lparr>readChannelAllowFromStore := (\<lambda>_. Inl (JsError ''EIO''))\<rparr>) ''slack''
     = Inl (JsError ''EIO'')
   \<and> storeAllowFromOf (exampleDeps\<lparr>readChannelAllowFromStore := (\<lambda>_. Inl (JsError ''EIO''))\<rparr>)
     = Inr []
   \<and> take 4 (calls (handleSlashCommand
        (exampleCtx\<lparr>resolveChannelName := (\<lambda>_. Inr (Some (exampleChannel ''im''))),
                    allowFrom := [''alice'']\<rparr>)
        (exampleDeps\<lparr>readChannelAllowFromStore := (\<lambda>_. Inl (JsError ''EIO''))\<rparr>)
        exampleAccount exampleSlashCommand exampleParams))
     = [EvAck None, EvResolveChannelName (channel_id (command exampleParams)),
        EvIsChannelAllowed
          \<lparr>ca_channelId = channel_id (command exampleParams),
           ca_channelName = channelNameOf (Some (exampleChannel ''im'')),
           ca_channelType = channelTypeOf (command exampleParams) (Some (exampleChannel ''im''))\<rparr>,
        EvReadChannelAllowFromStore ''slack'']
   \<and> dispatched (handleSlashCommand
        (exampleCtx\<lparr>resolveChannelName := (\<lambda>_. Inr (Some (exampleChannel ''im''))),
                    allowFrom := [''alice'']\<rparr>)
        (exampleDeps\<lparr>readChannelAllowFromStore := (\<lambda>_. Inl (JsError ''EIO''))\<rparr>)
        exampleAccount exampleSlashCommand exampleParams)
   \<and> \<not> dispatched (handleSlashCommand
        (exampleCtx\<lparr>resolveChannelName := (\<lambda>_. Inr (Some (exampleChannel ''im''))),
                    allowFrom := [''bob''], dmPolicy := ''allowlist''\<rparr>)
        (exampleDeps\<lparr>readChannelAllowFromStore := (\<lambda>_. Inl (JsError ''EIO''))\<rparr>)
        exampleAccount exampleSlashCommand exampleParams)
   \<and> take 2 (drop 4 (calls (handleSlashCommand
        (exampleCtx\<lparr>resolveChannelName := (\<lambda>_. Inr (Some (exampleChannel ''im''))),
                    allowFrom := [''bob''], dmPolicy := ''allowlist''\<rparr>)
        (exampleDeps\<lparr>readChannelAllowFromStore := (\<lambda>_. Inl (JsError ''EIO''))\<rparr>)
        exampleAccount exampleSlashCommand exampleParams)))
     = [EvResolveUserName (user_id (command exampleParams)),
        EvRespond (ephemeral ''You are not authorized to use this command.'')]"
proof -
  let ?deps = "exampleDeps\<lparr>readChannelAllowFromStore := (\<lambda>_. Inl (JsError ''EIO''))\<rparr>"
  let ?ctxA = "exampleCtx\<lparr>resolveChannelName := (\<lambda>_. Inr (Some (exampleChannel ''im''))),
                    allowFrom := [''alice'']\<rparr>"
  let ?ctxB = "exampleCtx\<lparr>resolveChannelName := (\<lambda>_. Inr (Some (exampleChannel ''im''))),
                    allowFrom := [''bob''], dmPolicy := ''allowlist''\<rparr>"
  let ?ci = "Some (exampleChannel ''im'')"
  let ?sender = "Some \<lparr>ui_name = Some ''Alice''\<rparr>"
  let ?route = "\<lparr>agentId = ''main'', sessionKey = ''agent:main:main'', accountId = ''default''\<rparr>"
  have h: "readChannelAllowFromStore ?deps ''slack'' = Inl (JsError ''EIO'')"
    by simp
  have reachA: "\<not> list_all isWhiteSpace (prompt exampleParams)
          \<and> \<not> (truthyOpt (botUserId ?ctxA)
                \<and> Some (user_id (command exampleParams)) = botUserId ?ctxA)
          \<and> ack exampleParams None = Inr ()
          \<and> resolveChannelName ?ctxA (channel_id (command exampleParams)) = Inr ?ci
          \<and> isChannelAllowed ?ctxA
               \<lparr>ca_channelId = channel_id (command exampleParams),
                ca_channelName = channelNameOf ?ci,
                ca_channelType = channelTypeOf (command exampleParams) ?ci\<rparr> = Inr True"
    by (simp add: example_defs isWhiteSpace_def)
  have reachB: "\<not> list_all isWhiteSpace (prompt exampleParams)
          \<and> \<not> (truthyOpt (botUserId ?ctxB)
                \<and> Some (user_id (command exampleParams)) = botUserId ?ctxB)
          \<and> ack exampleParams None = Inr ()
          \<and> resolveChannelName ?ctxB (channel_id (command exampleParams)) = Inr ?ci
          \<and> isChannelAllowed ?ctxB
               \<lparr>ca_channelId = channel_id (command exampleParams),
                ca_channelName = channelNameOf ?ci,
                ca_channelType = channelTypeOf (command exampleParams) ?ci\<rparr> = Inr True"
    by (simp add: example_defs isWhiteSpace_def)
  have dmA: "channelTypeOf (command exampleParams) ?ci = Some ''im''
          \<and> dmEnabled ?ctxA \<and> dmPolicy ?ctxA \<noteq> ''disabled'' \<and> dmPolicy ?ctxA \<noteq> ''open''
          \<and> resolveUserName ?ctxA (user_id (command exampleParams)) = Inr ?sender"
    by (simp add: example_defs channelTypeOf_def)
  have dmB: "channelTypeOf (command exampleParams) ?ci = Some ''im''
          \<and> dmEnabled ?ctxB \<and> dmPolicy ?ctxB \<noteq> ''disabled'' \<and> dmPolicy ?ctxB \<noteq> ''open''
          \<and> resolveUserName ?ctxB (user_id (command exampleParams)) = Inr ?sender"
    by (simp add: example_defs channelTypeOf_def)
  have mA: "allowListMatches ?deps
              \<lparr>al_allowList = normalizeAllowListLower ?deps
                                (normalizeAllowList ?deps (allowFrom ?ctxA)),
               al_id = user_id (command exampleParams),
               al_name = (case ?sender of None \<Rightarrow> None | Some s \<Rightarrow> ui_name s)\<rparr>"
    by (simp add: example_defs truthy_def trim_def isWhiteSpace_def)
  have mB: "\<not> allowListMatches ?deps
              \<lparr>al_allowList = normalizeAllowListLower ?deps
                                (normalizeAllowList ?deps (allowFrom ?ctxB)),
               al_id = user_id (command exampleParams),
               al_name = (case ?sender of None \<Rightarrow> None | Some s \<Rightarrow> ui_name s)\<rparr>"
    by (simp add: example_defs truthy_def trim_def isWhiteSpace_def)
  have rt: "resolveAgentRoute ?deps (cfg ?ctxA)
              \<lparr>ra_channel = ''slack'', ra_accountId = acc_accountId exampleAccount,
               ra_teamId = (if truthy (teamId ?ctxA) then Some (teamId ?ctxA) else None),
               ra_peer_kind = ''dm'', ra_peer_id = user_id (command exampleParams)\<rparr>
            = Inr ?route"
    by (simp add: example_defs)
  have pB: "dmPolicy ?ctxB \<noteq> ''pairing''"
    by (simp add: exampleCtx_def)
  note tA = store_read_failure_degrades[OF h, of ?ctxA exampleAccount exampleSlashCommand
      exampleParams ?ci ?sender ?route]
  note tB = store_read_failure_degrades[OF h, of ?ctxB exampleAccount exampleSlashCommand
      exampleParams ?ci ?sender ?route]
  have s: "storeAllowFromOf ?deps = Inr []"
    using tA by blast
  have a4: "take 4 (calls (handleSlashCommand ?ctxA ?deps exampleAccount exampleSlashCommand
              exampleParams))
     = [EvAck None, EvResolveChannelName (channel_id (command exampleParams)),
        EvIsChannelAllowed
          \<lparr>ca_channelId = channel_id (command exampleParams),
           ca_channelName = channelNameOf ?ci,
           ca_channelType = channelTypeOf (command exampleParams) ?ci\<rparr>,
        EvReadChannelAllowFromStore ''slack'']"
    using tA reachA by blast
  have ifA: "if allowListMatches ?deps
              \<lparr>al_allowList = normalizeAllowListLower ?deps
                                (normalizeAllowList ?deps (allowFrom ?ctxA)),
               al_id = user_id (command exampleParams),
               al_name = (case ?sender of None \<Rightarrow> None | Some s \<Rightarrow> ui_name s)\<rparr>
             then (resolveAgentRoute ?deps (cfg ?ctxA)
                     \<lparr>ra_channel = ''slack'', ra_accountId = acc_accountId exampleAccount,
                      ra_teamId = (if truthy (teamId ?ctxA) then Some (teamId ?ctxA) else None),
                      ra_peer_kind = ''dm'', ra_peer_id = user_id (command exampleParams)\<rparr>
                    = Inr ?route
                   \<longrightarrow> dispatched (handleSlashCommand ?ctxA ?deps exampleAccount
                         exampleSlashCommand exampleParams))
             else \<not> dispatched (handleSlashCommand ?ctxA ?deps exampleAccount
                         exampleSlashCommand exampleParams)
                  \<and> take 2 (drop 4 (calls (handleSlashCommand ?ctxA ?deps exampleAccount
                         exampleSlashCommand exampleParams)))
                    = [EvResolveUserName (user_id (command exampleParams)),
                       if dmPolicy ?ctxA = ''pairing''
                       then EvUpsertChannelPairingRequest
                              \<lparr>pr_channel = ''slack'', pr_id = user_id (command exampleParams),
                               pr_meta_name =
                                 (case ?sender of None \<Rightarrow> None | Some s \<Rightarrow> ui_name s)\<rparr>
                       else EvRespond
                              (ephemeral ''You are not authorized to use this command.'')]"
    using tA reachA dmA by blast
  have dA: "dispatched (handleSlashCommand ?ctxA ?deps exampleAccount exampleSlashCommand
              exampleParams)"
    using ifA rt unfolding if_P[OF mA] by blast
  have ifB: "if allowListMatches ?deps
              \<lparr>al_allowList = normalizeAllowListLower ?deps
                                (normalizeAllowList ?deps (allowFrom ?ctxB)),
               al_id = user_id (command exampleParams),
               al_name = (case ?sender of None \<Rightarrow> None | Some s \<Rightarrow> ui_name s)\<rparr>
             then (resolveAgentRoute ?deps (cfg ?ctxB)
                     \<lparr>ra_channel = ''slack'', ra_accountId = acc_accountId exampleAccount,
                      ra_teamId = (if truthy (teamId ?ctxB) then Some (teamId ?ctxB) else None),
                      ra_peer_kind = ''dm'', ra_peer_id = user_id (command exampleParams)\<rparr>
                    = Inr ?route
                   \<longrightarrow> dispatched (handleSlashCommand ?ctxB ?deps exampleAccount
                         exampleSlashCommand exampleParams))
             else \<not> dispatched (handleSlashCommand ?ctxB ?deps exampleAccount
                         exampleSlashCommand exampleParams)
                  \<and> take 2 (drop 4 (calls (handleSlashCommand ?ctxB ?deps exampleAccount
                         exampleSlashCommand exampleParams)))
                    = [EvResolveUserName (user_id (command exampleParams)),
                       if dmPolicy ?ctxB = ''pairing''
                       then EvUpsertChannelPairingRequest
                              \<lparr>pr_channel = ''slack'', pr_id = user_id (command exampleParams),
                               pr_meta_name =
                                 (case ?sender of None \<Rightarrow> None | Some s \<Rightarrow> ui_name s)\<rparr>
                       else EvRespond
                              (ephemeral ''You are not authorized to use this command.'')]"
    using tB reachB dmB by blast
  have nB: "\<not> dispatched (handleSlashCommand ?ctxB ?deps exampleAccount exampleSlashCommand
              exampleParams)"
    and sB: "take 2 (drop 4 (calls (handleSlashCommand ?ctxB ?deps exampleAccount
                         exampleSlashCommand exampleParams)))
               = [EvResolveUserName (user_id (command exampleParams)),
                  EvRespond (ephemeral ''You are not authorized to use this command.'')]"
    using ifB unfolding if_not_P[OF mB] if_not_P[OF pB] by blast+
  show ?thesis using h s a4 dA nB sB by blast
qed

end
